theory Spec2Isabelle
  imports Complex_Main
begin

section \<open>Python values, exceptions and log records\<close>

text \<open>
  The module \<open>ed03_2_iglesias_rodriguez_cristian.py\<close> defines one class,
  \<open>CalculadoraCientifica\<close>, whose methods take Python objects, validate them with
  \<open>isinstance(num, (int, float))\<close>, call the module-level \<open>logger\<close> and return the
  value of an arithmetic operator or of a function of the \<open>math\<close> module.

  A Python float is an IEEE binary64 number: a finite value, an infinity or a NaN.
  The sign of a zero is not tracked, since no branch of the program or of the library
  functions it calls depends on it. Python integers are unbounded, and \<open>bool\<close> is a
  subclass of \<open>int\<close> (\<open>True\<close> is 1, \<open>False\<close> is 0).
\<close>

datatype pyfloat = Fin real | PInf | NInf | NaN

datatype pyval =
    PInt int
  | PBool bool
  | PFloat pyfloat
  | PStr string
  | PNone
  | PList "pyval list"

text \<open>
  The exceptions that the methods and the operations they call can raise, each with
  its message. The messages of the exceptions raised by the interpreter are the ones of
  CPython 3; the theorems below only rest on their kind.
\<close>

datatype pyerr =
    TypeError string
  | ValueError string
  | OverflowError string
  | ZeroDivisionError string

text \<open>
  A log record is what \<open>logger.info(msg, *args)\<close> and \<open>logger.error(msg, *args)\<close>
  hand to the handlers: the level, the message template and the arguments. The state of
  the program is the sequence of records handed over so far; both handlers (the file
  \<open>calculadora.log\<close> and the console) receive every record, since the logger's level is
  INFO.
\<close>

datatype level = INFO | ERROR

datatype log_record = LogRecord level string "pyval list"

type_synonym log = "log_record list"

text \<open>The outcome of a call: the exception raised or the value returned, and the log.\<close>

type_synonym outcome = "(pyerr + pyval) \<times> log"

text \<open>
  The string literals of the source hold accented letters; a string is the list of the
  bytes of its UTF-8 encoding, as the source file stores it.
\<close>

definition i_acute :: string where "i_acute = [CHR 0xC3, CHR 0xAD]"
definition o_acute :: string where "o_acute = [CHR 0xC3, CHR 0xB3]"
definition u_acute :: string where "u_acute = [CHR 0xC3, CHR 0xBA]"

section \<open>The interpreter's arithmetic\<close>

subsection \<open>Rounding to binary64\<close>

text \<open>
  A real number whose magnitude reaches \<open>2^1024 - 2^970\<close> (the midpoint between the
  largest finite double and \<open>2^1024\<close>) rounds to an infinity; any other real rounds to
  the nearest double, ties to the even significand. The unit in the last place is
  \<open>2^e\<close> with \<open>e = max (floor (log2 |x|) - 52) (-1074)\<close>.
\<close>

definition overflow_threshold :: real where
  "overflow_threshold = 2 ^ 1024 - 2 ^ 970"

definition round_half_even :: "real \<Rightarrow> int" where
  "round_half_even y =
     (let f = \<lfloor>y\<rfloor> in
      if y - of_int f < 1 / 2 then f
      else if 1 / 2 < y - of_int f then f + 1
      else if even f then f else f + 1)"

definition ulp_exponent :: "real \<Rightarrow> int" where
  "ulp_exponent x = max (\<lfloor>log 2 \<bar>x\<bar>\<rfloor> - 52) (- 1074)"

definition nearest :: "real \<Rightarrow> real" where
  "nearest x =
     (if x = 0 then 0
      else of_int (round_half_even (x / 2 powi ulp_exponent x)) * 2 powi ulp_exponent x)"

definition fl :: "real \<Rightarrow> pyfloat" where
  "fl x =
     (if overflow_threshold \<le> x then PInf
      else if x \<le> - overflow_threshold then NInf
      else Fin (nearest x))"

subsection \<open>Float operators\<close>

fun f_neg :: "pyfloat \<Rightarrow> pyfloat" where
  "f_neg (Fin x) = Fin (- x)"
| "f_neg PInf = NInf"
| "f_neg NInf = PInf"
| "f_neg NaN = NaN"

fun f_add :: "pyfloat \<Rightarrow> pyfloat \<Rightarrow> pyfloat" where
  "f_add NaN y = NaN"
| "f_add x NaN = NaN"
| "f_add PInf NInf = NaN"
| "f_add NInf PInf = NaN"
| "f_add PInf y = PInf"
| "f_add NInf y = NInf"
| "f_add (Fin x) PInf = PInf"
| "f_add (Fin x) NInf = NInf"
| "f_add (Fin x) (Fin y) = fl (x + y)"

definition f_sub :: "pyfloat \<Rightarrow> pyfloat \<Rightarrow> pyfloat" where
  "f_sub x y = f_add x (f_neg y)"

text \<open>An infinity of the given sign (\<open>True\<close> is negative).\<close>

definition signed_inf :: "bool \<Rightarrow> pyfloat" where
  "signed_inf neg = (if neg then NInf else PInf)"

fun f_mul :: "pyfloat \<Rightarrow> pyfloat \<Rightarrow> pyfloat" where
  "f_mul NaN y = NaN"
| "f_mul x NaN = NaN"
| "f_mul (Fin x) (Fin y) = fl (x * y)"
| "f_mul (Fin x) PInf = (if x = 0 then NaN else signed_inf (x < 0))"
| "f_mul (Fin x) NInf = (if x = 0 then NaN else signed_inf (0 < x))"
| "f_mul PInf (Fin y) = (if y = 0 then NaN else signed_inf (y < 0))"
| "f_mul NInf (Fin y) = (if y = 0 then NaN else signed_inf (0 < y))"
| "f_mul PInf PInf = PInf"
| "f_mul PInf NInf = NInf"
| "f_mul NInf PInf = NInf"
| "f_mul NInf NInf = PInf"

text \<open>
  \<open>float_div\<close> of CPython: a zero divisor raises before the division; nothing else
  raises.
\<close>

fun f_div :: "pyfloat \<Rightarrow> pyfloat \<Rightarrow> pyerr + pyfloat" where
  "f_div NaN (Fin y) =
     (if y = 0 then Inl (ZeroDivisionError ''division by zero'') else Inr NaN)"
| "f_div NaN y = Inr NaN"
| "f_div x NaN = Inr NaN"
| "f_div (Fin x) (Fin y) =
     (if y = 0 then Inl (ZeroDivisionError ''division by zero'') else Inr (fl (x / y)))"
| "f_div (Fin x) PInf = Inr (Fin 0)"
| "f_div (Fin x) NInf = Inr (Fin 0)"
| "f_div PInf (Fin y) =
     (if y = 0 then Inl (ZeroDivisionError ''division by zero'')
      else Inr (signed_inf (y < 0)))"
| "f_div NInf (Fin y) =
     (if y = 0 then Inl (ZeroDivisionError ''division by zero'')
      else Inr (signed_inf (0 < y)))"
| "f_div PInf y = Inr NaN"
| "f_div NInf y = Inr NaN"

subsection \<open>Integers, conversions and comparisons\<close>

text \<open>\<open>isinstance(num, (int, float))\<close>: true of \<open>bool\<close> as well, a subclass of \<open>int\<close>.\<close>

fun isinstance_int_float :: "pyval \<Rightarrow> bool" where
  "isinstance_int_float (PInt i) = True"
| "isinstance_int_float (PBool b) = True"
| "isinstance_int_float (PFloat f) = True"
| "isinstance_int_float v = False"

fun isinstance_int :: "pyval \<Rightarrow> bool" where
  "isinstance_int (PInt i) = True"
| "isinstance_int (PBool b) = True"
| "isinstance_int v = False"

text \<open>The integer an \<open>int\<close> or \<open>bool\<close> object stands for.\<close>

fun int_of :: "pyval \<Rightarrow> int" where
  "int_of (PInt i) = i"
| "int_of (PBool b) = (if b then 1 else 0)"
| "int_of v = 0"

text \<open>\<open>type(num).__name__\<close>, as the f-string of \<open>validar_numeros\<close> prints it.\<close>

fun type_name :: "pyval \<Rightarrow> string" where
  "type_name (PInt i) = ''int''"
| "type_name (PBool b) = ''bool''"
| "type_name (PFloat f) = ''float''"
| "type_name (PStr s) = ''str''"
| "type_name PNone = ''NoneType''"
| "type_name (PList xs) = ''list''"

text \<open>
  \<open>PyLong_AsDouble\<close>: an integer converts to the nearest double, and raises
  OverflowError when that is no finite double.
\<close>

definition int_to_double :: "int \<Rightarrow> pyerr + pyfloat" where
  "int_to_double i =
     (if overflow_threshold \<le> \<bar>of_int i\<bar>
      then Inl (OverflowError ''int too large to convert to float'')
      else Inr (Fin (nearest (of_int i))))"

text \<open>\<open>PyFloat_AsDouble\<close>, the conversion of an operand or argument to a double.\<close>

fun to_double :: "pyval \<Rightarrow> pyerr + pyfloat" where
  "to_double (PFloat f) = Inr f"
| "to_double (PInt i) = int_to_double i"
| "to_double (PBool b) = int_to_double (if b then 1 else 0)"
| "to_double v = Inl (TypeError (''must be real number, not '' @ type_name v))"

text \<open>
  A binary float operator on two operands of which one at least is a float: both are
  converted, the left one first.
\<close>

definition float_binop ::
  "(pyfloat \<Rightarrow> pyfloat \<Rightarrow> pyerr + pyfloat) \<Rightarrow> pyval \<Rightarrow> pyval \<Rightarrow> pyerr + pyval" where
  "float_binop f a b =
     (case to_double a of
        Inl e \<Rightarrow> Inl e
      | Inr x \<Rightarrow>
          (case to_double b of
             Inl e \<Rightarrow> Inl e
           | Inr y \<Rightarrow> (case f x y of Inl e \<Rightarrow> Inl e | Inr r \<Rightarrow> Inr (PFloat r))))"

text \<open>
  The operators \<open>+\<close>, \<open>-\<close>, \<open>*\<close> and \<open>/\<close> on numbers. Two integers (or booleans) are
  added, subtracted and multiplied exactly; \<open>/\<close> on two integers is the correctly
  rounded quotient and raises OverflowError when it is too large for a float. Operands
  that are not numbers never reach the operators here (\<open>validar_numeros\<close> raises
  first); the conversion's TypeError stands for what the operators do with them.
\<close>

definition py_add :: "pyval \<Rightarrow> pyval \<Rightarrow> pyerr + pyval" where
  "py_add a b =
     (if isinstance_int a \<and> isinstance_int b then Inr (PInt (int_of a + int_of b))
      else float_binop (\<lambda>x y. Inr (f_add x y)) a b)"

definition py_sub :: "pyval \<Rightarrow> pyval \<Rightarrow> pyerr + pyval" where
  "py_sub a b =
     (if isinstance_int a \<and> isinstance_int b then Inr (PInt (int_of a - int_of b))
      else float_binop (\<lambda>x y. Inr (f_sub x y)) a b)"

definition py_mul :: "pyval \<Rightarrow> pyval \<Rightarrow> pyerr + pyval" where
  "py_mul a b =
     (if isinstance_int a \<and> isinstance_int b then Inr (PInt (int_of a * int_of b))
      else float_binop (\<lambda>x y. Inr (f_mul x y)) a b)"

definition int_true_divide :: "int \<Rightarrow> int \<Rightarrow> pyerr + pyval" where
  "int_true_divide a b =
     (if b = 0 then Inl (ZeroDivisionError ''division by zero'')
      else if overflow_threshold \<le> \<bar>of_int a / of_int b\<bar>
      then Inl (OverflowError ''integer division result too large for a float'')
      else Inr (PFloat (Fin (nearest (of_int a / of_int b)))))"

definition py_truediv :: "pyval \<Rightarrow> pyval \<Rightarrow> pyerr + pyval" where
  "py_truediv a b =
     (if isinstance_int a \<and> isinstance_int b then int_true_divide (int_of a) (int_of b)
      else float_binop f_div a b)"

text \<open>
  The comparisons of a number with the integer literal \<open>0\<close>. A NaN compares false
  with everything. An object that is not a number is not equal to 0; \<open><\<close> and \<open><=\<close>
  on such an object are never reached (\<open>validar_numeros\<close> raises first) and stand as
  \<open>False\<close>.
\<close>

fun py_eq_zero :: "pyval \<Rightarrow> bool" where
  "py_eq_zero (PInt i) = (i = 0)"
| "py_eq_zero (PBool b) = (\<not> b)"
| "py_eq_zero (PFloat (Fin x)) = (x = 0)"
| "py_eq_zero v = False"

fun py_lt_zero :: "pyval \<Rightarrow> bool" where
  "py_lt_zero (PInt i) = (i < 0)"
| "py_lt_zero (PBool b) = False"
| "py_lt_zero (PFloat (Fin x)) = (x < 0)"
| "py_lt_zero (PFloat NInf) = True"
| "py_lt_zero v = False"

fun py_le_zero :: "pyval \<Rightarrow> bool" where
  "py_le_zero (PInt i) = (i \<le> 0)"
| "py_le_zero (PBool b) = (\<not> b)"
| "py_le_zero (PFloat (Fin x)) = (x \<le> 0)"
| "py_le_zero (PFloat NInf) = True"
| "py_le_zero v = False"

subsection \<open>The \<open>math\<close> module\<close>

text \<open>
  The \<open>math\<close> module calls the C library. The square root is an IEEE operation and
  is correctly rounded. The library's \<open>sin\<close>, \<open>cos\<close>, \<open>tan\<close>, \<open>log\<close>, \<open>log10\<close> and
  \<open>pow\<close> are not: their value at a finite double is accurate to the last place or so
  and differs from one library to the next. They are taken as a parameter, \<open>libm\<close>,
  which holds the library's values where C99 leaves them to the implementation:
  \<open>sin\<close> and \<open>cos\<close> of a finite double, and \<open>log\<close> and \<open>log10\<close> of a positive finite
  double, which are finite doubles; \<open>tan\<close> of a finite double; and \<open>pow\<close> of two
  finite doubles, base and exponent other than zero, the base positive or the exponent
  an integer, which is a finite double or, on overflow, an infinity. What C99 (Annex
  F) fixes, a NaN outside the domain, an infinity at a pole, the values at an
  infinity or a NaN, is written out below.
\<close>

record libm =
  lm_sin :: "real \<Rightarrow> real"
  lm_cos :: "real \<Rightarrow> real"
  lm_tan :: "real \<Rightarrow> pyfloat"
  lm_log :: "real \<Rightarrow> real"
  lm_log10 :: "real \<Rightarrow> real"
  lm_pow :: "real \<Rightarrow> real \<Rightarrow> pyfloat"

fun is_nan :: "pyfloat \<Rightarrow> bool" where
  "is_nan NaN = True"
| "is_nan x = False"

fun is_inf :: "pyfloat \<Rightarrow> bool" where
  "is_inf PInf = True"
| "is_inf NInf = True"
| "is_inf x = False"

fun is_finite :: "pyfloat \<Rightarrow> bool" where
  "is_finite (Fin x) = True"
| "is_finite x = False"

fun c_sqrt :: "pyfloat \<Rightarrow> pyfloat" where
  "c_sqrt (Fin x) = (if x < 0 then NaN else fl (sqrt x))"
| "c_sqrt PInf = PInf"
| "c_sqrt NInf = NaN"
| "c_sqrt NaN = NaN"

fun c_sin :: "libm \<Rightarrow> pyfloat \<Rightarrow> pyfloat" where
  "c_sin lm (Fin x) = Fin (lm_sin lm x)"
| "c_sin lm x = NaN"

fun c_cos :: "libm \<Rightarrow> pyfloat \<Rightarrow> pyfloat" where
  "c_cos lm (Fin x) = Fin (lm_cos lm x)"
| "c_cos lm x = NaN"

fun c_tan :: "libm \<Rightarrow> pyfloat \<Rightarrow> pyfloat" where
  "c_tan lm (Fin x) = lm_tan lm x"
| "c_tan lm x = NaN"

text \<open>
  \<open>math_1\<close> of \<open>mathmodule.c\<close>, the wrapper of \<open>math.sqrt\<close>, \<open>math.sin\<close>, \<open>math.cos\<close>
  and \<open>math.tan\<close>: the argument is converted to a double; a NaN result from an
  argument that is no NaN is a ValueError; an infinite result from a finite argument
  is an OverflowError when the function can overflow and a ValueError otherwise.
\<close>

definition math_1 :: "(pyfloat \<Rightarrow> pyfloat) \<Rightarrow> bool \<Rightarrow> pyval \<Rightarrow> pyerr + pyval" where
  "math_1 func can_overflow arg =
     (case to_double arg of
        Inl e \<Rightarrow> Inl e
      | Inr x \<Rightarrow>
          (let r = func x in
           if is_nan r \<and> \<not> is_nan x then Inl (ValueError ''math domain error'')
           else if is_inf r \<and> is_finite x then
             (if can_overflow then Inl (OverflowError ''math range error'')
              else Inl (ValueError ''math domain error''))
           else Inr (PFloat r)))"

definition math_sqrt :: "pyval \<Rightarrow> pyerr + pyval" where
  "math_sqrt = math_1 c_sqrt False"

definition math_sin :: "libm \<Rightarrow> pyval \<Rightarrow> pyerr + pyval" where
  "math_sin lm = math_1 (c_sin lm) False"

definition math_cos :: "libm \<Rightarrow> pyval \<Rightarrow> pyerr + pyval" where
  "math_cos lm = math_1 (c_cos lm) False"

definition math_tan :: "libm \<Rightarrow> pyval \<Rightarrow> pyerr + pyval" where
  "math_tan lm = math_1 (c_tan lm) False"

text \<open>
  \<open>m_log\<close> and \<open>m_log10\<close> of \<open>mathmodule.c\<close>: the logarithm of a positive finite
  double, minus infinity at zero, a NaN at a negative number.
\<close>

fun m_log :: "libm \<Rightarrow> pyfloat \<Rightarrow> pyfloat" where
  "m_log lm (Fin x) = (if 0 < x then Fin (lm_log lm x) else if x = 0 then NInf else NaN)"
| "m_log lm PInf = PInf"
| "m_log lm NInf = NaN"
| "m_log lm NaN = NaN"

fun m_log10 :: "libm \<Rightarrow> pyfloat \<Rightarrow> pyfloat" where
  "m_log10 lm (Fin x) = (if 0 < x then Fin (lm_log10 lm x) else if x = 0 then NInf else NaN)"
| "m_log10 lm PInf = PInf"
| "m_log10 lm NInf = NaN"
| "m_log10 lm NaN = NaN"

text \<open>
  \<open>_PyLong_Frexp\<close> at a positive integer \<open>a\<close>: the pair \<open>(x, e)\<close> with \<open>x\<close> in
  \<open>[1/2, 1)\<close> and \<open>a\<close> close to \<open>x * 2^e\<close>. With \<open>e\<close> the number of bits of \<open>a\<close>, the
  quotient \<open>a / 2^e\<close> is rounded to 53 bits, ties to even; when that rounds up to 1,
  the result is \<open>(1/2, e + 1)\<close>.
\<close>

definition long_frexp :: "int \<Rightarrow> real \<times> int" where
  "long_frexp a =
     (let bits = \<lfloor>log 2 (of_int a)\<rfloor> + 1;
          x = nearest (of_int a / 2 powi bits)
      in if x = 1 then (1 / 2, bits + 1) else (x, bits))"

text \<open>
  \<open>loghelper\<close> of \<open>mathmodule.c\<close>, behind \<open>math.log\<close> and \<open>math.log10\<close>. An integer
  argument is handled apart: a ValueError unless it is positive; the logarithm of its
  double when it converts; and otherwise, with \<open>(x, e)\<close> from \<open>_PyLong_Frexp\<close>, the
  float sum \<open>func(x) + func(2.0) * e\<close>. Any other argument goes through \<open>math_1\<close>.
\<close>

definition loghelper :: "(pyfloat \<Rightarrow> pyfloat) \<Rightarrow> pyval \<Rightarrow> pyerr + pyval" where
  "loghelper func arg =
     (if isinstance_int arg then
        (if int_of arg \<le> 0 then Inl (ValueError ''math domain error'')
         else
           (case int_to_double (int_of arg) of
              Inr x \<Rightarrow> Inr (PFloat (func x))
            | Inl err \<Rightarrow>
                (case long_frexp (int_of arg) of
                   (x, e) \<Rightarrow>
                     Inr (PFloat (f_add (func (Fin x))
                                        (f_mul (func (Fin 2)) (Fin (nearest (of_int e)))))))))
      else math_1 func False arg)"

definition math_log :: "libm \<Rightarrow> pyval \<Rightarrow> pyerr + pyval" where
  "math_log lm = loghelper (m_log lm)"

definition math_log10 :: "libm \<Rightarrow> pyval \<Rightarrow> pyerr + pyval" where
  "math_log10 lm = loghelper (m_log10 lm)"

text \<open>
  \<open>math.pow\<close> (\<open>math_pow_impl\<close>). With an infinity or a NaN among the arguments the
  result is fixed case by case and nothing is raised. With two finite arguments the C
  library's \<open>pow\<close> is called: a NaN result (a negative base with a finite exponent that
  is no integer) is a ValueError, an infinite result is a ValueError when the base is
  zero (a negative exponent) and an OverflowError otherwise.
\<close>

definition is_integer :: "real \<Rightarrow> bool" where
  "is_integer y = (y = of_int \<lfloor>y\<rfloor>)"

definition is_odd_integer :: "real \<Rightarrow> bool" where
  "is_odd_integer y = (is_integer y \<and> odd \<lfloor>y\<rfloor>)"

text \<open>
  The C library's \<open>pow\<close> at two finite doubles: 1 at exponent zero; at base zero, an
  infinity for a negative exponent and zero for a positive one; a NaN for a negative
  base with an exponent that is no integer; the library's value elsewhere.
\<close>

definition c_pow :: "libm \<Rightarrow> real \<Rightarrow> real \<Rightarrow> pyfloat" where
  "c_pow lm x y =
     (if y = 0 then Fin 1
      else if x = 0 then (if y < 0 then PInf else Fin 0)
      else if 0 < x \<or> is_integer y then lm_pow lm x y
      else NaN)"

text \<open>
  The value \<open>r\<close> that \<open>math_pow_impl\<close> computes: with an infinity or a NaN among the
  arguments the cases of its source, in their order; with two finite arguments the C
  library's \<open>pow\<close>.
\<close>

fun pow_special :: "libm \<Rightarrow> pyfloat \<Rightarrow> pyfloat \<Rightarrow> pyfloat" where
  "pow_special lm NaN y = (if y = Fin 0 then Fin 1 else NaN)"
| "pow_special lm x NaN = (if x = Fin 1 then Fin 1 else NaN)"
| "pow_special lm PInf (Fin y) = (if 0 < y then PInf else if y = 0 then Fin 1 else Fin 0)"
| "pow_special lm NInf (Fin y) =
     (if 0 < y then (if is_odd_integer y then NInf else PInf)
      else if y = 0 then Fin 1 else Fin 0)"
| "pow_special lm PInf PInf = PInf"
| "pow_special lm NInf PInf = PInf"
| "pow_special lm PInf NInf = Fin 0"
| "pow_special lm NInf NInf = Fin 0"
| "pow_special lm (Fin x) PInf =
     (if \<bar>x\<bar> = 1 then Fin 1 else if 1 < \<bar>x\<bar> then PInf else Fin 0)"
| "pow_special lm (Fin x) NInf =
     (if \<bar>x\<bar> = 1 then Fin 1 else if \<bar>x\<bar> < 1 then PInf else Fin 0)"
| "pow_special lm (Fin x) (Fin y) = c_pow lm x y"

text \<open>
  The wrapper: with two finite arguments, a NaN from the library is a ValueError, an
  infinity is a ValueError at base zero and an OverflowError elsewhere.
\<close>

fun math_pow_impl :: "libm \<Rightarrow> pyfloat \<Rightarrow> pyfloat \<Rightarrow> pyerr + pyval" where
  "math_pow_impl lm (Fin x) (Fin y) =
     (let r = pow_special lm (Fin x) (Fin y) in
      if is_nan r then Inl (ValueError ''math domain error'')
      else if is_inf r then
        (if x = 0 then Inl (ValueError ''math domain error'')
         else Inl (OverflowError ''math range error''))
      else Inr (PFloat r))"
| "math_pow_impl lm x y = Inr (PFloat (pow_special lm x y))"

definition math_pow :: "libm \<Rightarrow> pyval \<Rightarrow> pyval \<Rightarrow> pyerr + pyval" where
  "math_pow lm a b =
     (case to_double a of
        Inl e \<Rightarrow> Inl e
      | Inr x \<Rightarrow>
          (case to_double b of Inl e \<Rightarrow> Inl e | Inr y \<Rightarrow> math_pow_impl lm x y))"

section \<open>The class \<open>CalculadoraCientifica\<close>\<close>

text \<open>
  An instance has no attribute: the only state a method reads or changes is the log.
  Each method is a function of its arguments and the log, to the value returned or the
  exception raised, and the log after the call. The methods that call \<open>math.pow\<close>,
  \<open>math.log\<close>, \<open>math.log10\<close>, \<open>math.sin\<close>, \<open>math.cos\<close> and \<open>math.tan\<close> take the
  C library \<open>lm\<close> of the platform first.
\<close>

definition init :: "log \<Rightarrow> log" where
  "init lg = lg @ [LogRecord INFO (''Iniciando calculadora cient'' @ i_acute @ ''fica'') []]"

text \<open>
  \<open>validar_numeros(*args)\<close>: the first argument, in order, that is no instance of
  \<open>int\<close> or \<open>float\<close> raises a TypeError whose message ends with \<open>type(num)\<close>, which
  prints as \<open><class 'name'>\<close>.
\<close>

definition type_error_message :: "pyval \<Rightarrow> string" where
  "type_error_message num =
     ''Se esperaba un n'' @ u_acute @ ''mero, se recibi'' @ o_acute @ '' <class ''
       @ [CHR 0x27] @ type_name num @ [CHR 0x27] @ ''>''"

fun validar_numeros :: "pyval list \<Rightarrow> pyerr + unit" where
  "validar_numeros [] = Inr ()"
| "validar_numeros (num # args) =
     (if \<not> isinstance_int_float num then Inl (TypeError (type_error_message num))
      else validar_numeros args)"

definition sumar :: "pyval \<Rightarrow> pyval \<Rightarrow> log \<Rightarrow> outcome" where
  "sumar a b lg =
     (case validar_numeros [a, b] of
        Inl e \<Rightarrow> (Inl e, lg)
      | Inr u \<Rightarrow> (py_add a b, lg @ [LogRecord INFO ''Sumando %d + %d'' [a, b]]))"

definition restar :: "pyval \<Rightarrow> pyval \<Rightarrow> log \<Rightarrow> outcome" where
  "restar a b lg =
     (case validar_numeros [a, b] of
        Inl e \<Rightarrow> (Inl e, lg)
      | Inr u \<Rightarrow> (py_sub a b, lg @ [LogRecord INFO ''Restando %d - %d'' [a, b]]))"

definition multiplicar :: "pyval \<Rightarrow> pyval \<Rightarrow> log \<Rightarrow> outcome" where
  "multiplicar a b lg =
     (case validar_numeros [a, b] of
        Inl e \<Rightarrow> (Inl e, lg)
      | Inr u \<Rightarrow> (py_mul a b, lg @ [LogRecord INFO ''Multiplicando %d * %d'' [a, b]]))"

definition dividir :: "pyval \<Rightarrow> pyval \<Rightarrow> log \<Rightarrow> outcome" where
  "dividir a b lg =
     (case validar_numeros [a, b] of
        Inl e \<Rightarrow> (Inl e, lg)
      | Inr u \<Rightarrow>
          (if py_eq_zero b then
             (Inl (ValueError ''No se puede dividir por cero''),
              lg @ [LogRecord ERROR
                      (''Intento de divisi'' @ o_acute
                         @ ''n por cero al intentar dividir %d por %d'') [a, b]])
           else (py_truediv a b, lg @ [LogRecord INFO ''Dividiendo %d / %d'' [a, b]])))"

definition potencia :: "libm \<Rightarrow> pyval \<Rightarrow> pyval \<Rightarrow> log \<Rightarrow> outcome" where
  "potencia lm base exponente lg =
     (case validar_numeros [base, exponente] of
        Inl e \<Rightarrow> (Inl e, lg)
      | Inr u \<Rightarrow>
          (math_pow lm base exponente,
           lg @ [LogRecord INFO ''Calculando %d ^ %d'' [base, exponente]]))"

definition raiz_cuadrada :: "pyval \<Rightarrow> log \<Rightarrow> outcome" where
  "raiz_cuadrada numero lg =
     (case validar_numeros [numero] of
        Inl e \<Rightarrow> (Inl e, lg)
      | Inr u \<Rightarrow>
          (if py_lt_zero numero then
             (Inl (ValueError (''No se puede calcular la ra'' @ i_acute
                                 @ ''z cuadrada de un n'' @ u_acute @ ''mero negativo'')),
              lg @ [LogRecord ERROR
                      (''Intento de calcular ra'' @ i_acute @ ''z cuadrada de n'' @ u_acute
                         @ ''mero negativo: %d'') [numero]])
           else
             (math_sqrt numero,
              lg @ [LogRecord INFO (''Calculando ra'' @ i_acute @ ''z cuadrada de %d'')
                      [numero]])))"

definition logaritmo_natural :: "libm \<Rightarrow> pyval \<Rightarrow> log \<Rightarrow> outcome" where
  "logaritmo_natural lm numero lg =
     (case validar_numeros [numero] of
        Inl e \<Rightarrow> (Inl e, lg)
      | Inr u \<Rightarrow>
          (if py_le_zero numero then
             (Inl (ValueError (''No se puede calcular el logaritmo de un n'' @ u_acute
                                 @ ''mero menor o igual a cero'')),
              lg @ [LogRecord ERROR
                      (''Intento de calcular logaritmo de n'' @ u_acute
                         @ ''mero no positivo: %d'') [numero]])
           else
             (math_log lm numero,
              lg @ [LogRecord INFO ''Calculando logaritmo natural de %d'' [numero]])))"

definition logaritmo_base_10 :: "libm \<Rightarrow> pyval \<Rightarrow> log \<Rightarrow> outcome" where
  "logaritmo_base_10 lm numero lg =
     (case validar_numeros [numero] of
        Inl e \<Rightarrow> (Inl e, lg)
      | Inr u \<Rightarrow>
          (if py_le_zero numero then
             (Inl (ValueError (''No se puede calcular el logaritmo de un n'' @ u_acute
                                 @ ''mero menor o igual a cero'')),
              lg @ [LogRecord ERROR
                      (''Intento de calcular logaritmo base 10 de n'' @ u_acute
                         @ ''mero no positivo: %d'') [numero]])
           else
             (math_log10 lm numero,
              lg @ [LogRecord INFO ''Calculando logaritmo base 10 de %d'' [numero]])))"

definition seno :: "libm \<Rightarrow> pyval \<Rightarrow> log \<Rightarrow> outcome" where
  "seno lm angulo lg =
     (case validar_numeros [angulo] of
        Inl e \<Rightarrow> (Inl e, lg)
      | Inr u \<Rightarrow>
          (math_sin lm angulo, lg @ [LogRecord INFO ''Calculando seno de %f radianes'' [angulo]]))"

definition coseno :: "libm \<Rightarrow> pyval \<Rightarrow> log \<Rightarrow> outcome" where
  "coseno lm angulo lg =
     (case validar_numeros [angulo] of
        Inl e \<Rightarrow> (Inl e, lg)
      | Inr u \<Rightarrow>
          (math_cos lm angulo,
           lg @ [LogRecord INFO ''Calculando coseno de %f radianes'' [angulo]]))"

definition tangente :: "libm \<Rightarrow> pyval \<Rightarrow> log \<Rightarrow> outcome" where
  "tangente lm angulo lg =
     (case validar_numeros [angulo] of
        Inl e \<Rightarrow> (Inl e, lg)
      | Inr u \<Rightarrow>
          (math_tan lm angulo,
           lg @ [LogRecord INFO ''Calculando tangente de %f radianes'' [angulo]]))"

text \<open>
  The methods of the class, by the number of their arguments, on a platform whose C
  library is \<open>lm\<close>.
\<close>

definition binary_methods :: "libm \<Rightarrow> (pyval \<Rightarrow> pyval \<Rightarrow> log \<Rightarrow> outcome) list" where
  "binary_methods lm = [sumar, restar, multiplicar, dividir, potencia lm]"

definition unary_methods :: "libm \<Rightarrow> (pyval \<Rightarrow> log \<Rightarrow> outcome) list" where
  "unary_methods lm =
     [raiz_cuadrada, logaritmo_natural lm, logaritmo_base_10 lm, seno lm, coseno lm,
      tangente lm]"

text \<open>
  The magnitude of a finite double is zero or lies between the least subnormal,
  \<open>2^-1074\<close>, and \<open>2^1024\<close>; a float argument that a caller can pass satisfies
  \<open>float_in_range\<close>.
\<close>

definition double_range :: "real \<Rightarrow> bool" where
  "double_range x = (x = 0 \<or> (2 powi (- 1074) \<le> \<bar>x\<bar> \<and> \<bar>x\<bar> < 2 ^ 1024))"

fun float_in_range :: "pyval \<Rightarrow> bool" where
  "float_in_range (PFloat (Fin x)) = double_range x"
| "float_in_range v = True"

text \<open>
  One library of the kind \<open>lm\<close> ranges over, the one that rounds every exact value to
  the nearest double. It stands for the library in the closed examples below; the
  theorems on the methods hold for every library.
\<close>

definition sample_libm :: libm where
  "sample_libm =
     \<lparr>lm_sin = (\<lambda>x. nearest (sin x)),
      lm_cos = (\<lambda>x. nearest (cos x)),
      lm_tan = (\<lambda>x. fl (tan x)),
      lm_log = (\<lambda>x. nearest (ln x)),
      lm_log10 = (\<lambda>x. nearest (log 10 x)),
      lm_pow = (\<lambda>x y. fl ((if x < 0 \<and> is_odd_integer y then - 1 else 1) * (\<bar>x\<bar> powr y)))\<rparr>"

section \<open>Which exceptions the operations can raise\<close>

lemmas binary_defs = sumar_def restar_def multiplicar_def dividir_def potencia_def

lemmas unary_defs = raiz_cuadrada_def logaritmo_natural_def logaritmo_base_10_def
  seno_def coseno_def tangente_def

lemmas math_defs = math_sqrt_def math_sin_def math_cos_def math_tan_def math_log_def
  math_log10_def

lemma int_to_double_not_TypeError: "int_to_double i \<noteq> Inl (TypeError msg)"
  by (simp add: int_to_double_def)

lemma to_double_not_TypeError:
  "isinstance_int_float v \<Longrightarrow> to_double v \<noteq> Inl (TypeError msg)"
  by (cases v) (simp_all add: int_to_double_not_TypeError)

lemma to_double_not_ValueError: "to_double v \<noteq> Inl (ValueError msg)"
  by (cases v) (simp_all add: int_to_double_def)

lemma f_div_not_TypeError: "f_div x y \<noteq> Inl (TypeError msg)"
  by (cases x; cases y) simp_all

lemma f_div_not_ValueError: "f_div x y \<noteq> Inl (ValueError msg)"
  by (cases x; cases y) simp_all

lemma float_binop_not_TypeError:
  assumes "isinstance_int_float a" "isinstance_int_float b"
    and "\<And>x y. f x y \<noteq> Inl (TypeError msg)"
  shows "float_binop f a b \<noteq> Inl (TypeError msg)"
  using assms to_double_not_TypeError[of a msg] to_double_not_TypeError[of b msg]
  by (auto simp: float_binop_def split: sum.splits)

lemma py_add_not_TypeError:
  "isinstance_int_float a \<Longrightarrow> isinstance_int_float b \<Longrightarrow> py_add a b \<noteq> Inl (TypeError msg)"
  by (simp add: py_add_def float_binop_not_TypeError)

lemma py_sub_not_TypeError:
  "isinstance_int_float a \<Longrightarrow> isinstance_int_float b \<Longrightarrow> py_sub a b \<noteq> Inl (TypeError msg)"
  by (simp add: py_sub_def float_binop_not_TypeError)

lemma py_mul_not_TypeError:
  "isinstance_int_float a \<Longrightarrow> isinstance_int_float b \<Longrightarrow> py_mul a b \<noteq> Inl (TypeError msg)"
  by (simp add: py_mul_def float_binop_not_TypeError)

lemma py_truediv_not_TypeError:
  "isinstance_int_float a \<Longrightarrow> isinstance_int_float b \<Longrightarrow>
     py_truediv a b \<noteq> Inl (TypeError msg)"
  by (simp add: py_truediv_def float_binop_not_TypeError f_div_not_TypeError
      int_true_divide_def)

lemma py_truediv_not_ValueError: "py_truediv a b \<noteq> Inl (ValueError msg)"
  using to_double_not_ValueError[of a msg] to_double_not_ValueError[of b msg]
  by (auto simp: py_truediv_def int_true_divide_def float_binop_def f_div_not_ValueError
      split: sum.splits)

lemma math_pow_impl_not_TypeError: "math_pow_impl lm x y \<noteq> Inl (TypeError msg)"
  by (cases x; cases y) (simp_all add: Let_def)

lemma math_pow_not_TypeError:
  "isinstance_int_float a \<Longrightarrow> isinstance_int_float b \<Longrightarrow> math_pow lm a b \<noteq> Inl (TypeError msg)"
  using to_double_not_TypeError[of a msg] to_double_not_TypeError[of b msg]
  by (auto simp: math_pow_def math_pow_impl_not_TypeError split: sum.splits)

lemma math_1_not_TypeError:
  "isinstance_int_float v \<Longrightarrow> math_1 func c v \<noteq> Inl (TypeError msg)"
  using to_double_not_TypeError[of v msg]
  by (auto simp: math_1_def Let_def split: sum.splits)

lemma loghelper_not_TypeError:
  "isinstance_int_float v \<Longrightarrow> loghelper func v \<noteq> Inl (TypeError msg)"
  by (auto simp: loghelper_def Let_def math_1_not_TypeError split: sum.splits prod.splits)

lemma binary_numeric_not_TypeError:
  assumes "isinstance_int_float a" "isinstance_int_float b" "m \<in> set (binary_methods lm)"
  shows "fst (m a b lg) \<noteq> Inl (TypeError msg)"
  using assms py_add_not_TypeError[of a b msg] py_sub_not_TypeError[of a b msg]
    py_mul_not_TypeError[of a b msg] py_truediv_not_TypeError[of a b msg]
    math_pow_not_TypeError[of a b lm msg]
  by (auto simp: binary_methods_def binary_defs split: if_splits)

lemma unary_numeric_not_TypeError:
  assumes "isinstance_int_float x" "m \<in> set (unary_methods lm)"
  shows "fst (m x lg) \<noteq> Inl (TypeError msg)"
  using assms math_1_not_TypeError[of x _ False msg] loghelper_not_TypeError[of x _ msg]
  by (auto simp: unary_methods_def unary_defs math_defs split: if_splits)

section \<open>Type validation\<close>

text \<open>
  C7. Whatever the operation, when an argument is no instance of \<open>int\<close> or \<open>float\<close>
  the call raises TypeError and leaves the log as it was: no INFO record and no ERROR
  record is produced. The message is the one of \<open>validar_numeros\<close> for the first such
  argument, and it ends with the name of that argument's type.
\<close>

theorem non_numeric_argument_raises_TypeError:
  "(\<forall>m \<in> set (binary_methods lm).
      \<not> (isinstance_int_float a \<and> isinstance_int_float b) \<longrightarrow>
        m a b lg =
          (Inl (TypeError (type_error_message (if isinstance_int_float a then b else a))), lg))
   \<and> (\<forall>m \<in> set (unary_methods lm).
      \<not> isinstance_int_float x \<longrightarrow> m x lg = (Inl (TypeError (type_error_message x)), lg))"
  unfolding binary_methods_def unary_methods_def
  by (simp add: binary_defs unary_defs)

theorem non_numeric_argument_raises_TypeError_witness:
  "sumar (PStr ''5'') (PInt 3) [] =
     (Inl (TypeError (''Se esperaba un n'' @ [CHR 0xC3, CHR 0xBA] @ ''mero, se recibi''
                        @ [CHR 0xC3, CHR 0xB3] @ '' <class '' @ [CHR 0x27] @ ''str''
                        @ [CHR 0x27] @ ''>'')), [])
   \<and> potencia sample_libm (PStr ''5'') (PInt 3) [] = sumar (PStr ''5'') (PInt 3) []
   \<and> tangente sample_libm PNone [] =
     (Inl (TypeError (''Se esperaba un n'' @ [CHR 0xC3, CHR 0xBA] @ ''mero, se recibi''
                        @ [CHR 0xC3, CHR 0xB3] @ '' <class '' @ [CHR 0x27] @ ''NoneType''
                        @ [CHR 0x27] @ ''>'')), [])"
  using non_numeric_argument_raises_TypeError
      [where a = "PStr ''5''" and b = "PInt 3" and lg = "[]" and x = PNone
         and lm = sample_libm]
  by (simp add: binary_methods_def unary_methods_def type_error_message_def u_acute_def
      o_acute_def)

text \<open>
  C8. Type validation runs before the domain checks: \<open>dividir\<close> raises TypeError and
  logs nothing as soon as one argument is no number, whatever the divisor, a zero
  divisor included; \<open>raiz_cuadrada\<close> and the two logarithms raise TypeError and log
  nothing for an argument that is no number. A ValueError of \<open>dividir\<close> is raised only
  after both arguments have passed the validation.
\<close>

theorem type_validation_precedes_domain_checks:
  "(\<not> (isinstance_int_float a \<and> isinstance_int_float b) \<longrightarrow>
      (\<exists>msg. dividir a b lg = (Inl (TypeError msg), lg)))
   \<and> (\<not> isinstance_int_float a \<and> py_eq_zero b \<longrightarrow>
      dividir a b lg = (Inl (TypeError (type_error_message a)), lg))
   \<and> (\<not> isinstance_int_float x \<longrightarrow>
        raiz_cuadrada x lg = (Inl (TypeError (type_error_message x)), lg)
      \<and> logaritmo_natural lm x lg = (Inl (TypeError (type_error_message x)), lg)
      \<and> logaritmo_base_10 lm x lg = (Inl (TypeError (type_error_message x)), lg))
   \<and> ((\<exists>msg. fst (dividir a b lg) = Inl (ValueError msg)) \<longrightarrow>
        isinstance_int_float a \<and> isinstance_int_float b \<and> py_eq_zero b)"
  by (auto simp: dividir_def raiz_cuadrada_def logaritmo_natural_def logaritmo_base_10_def
      py_truediv_not_ValueError split: if_splits)

theorem type_validation_precedes_domain_checks_witness:
  "dividir (PStr ''a'') (PInt 0) [] = (Inl (TypeError (type_error_message (PStr ''a''))), [])
   \<and> logaritmo_natural sample_libm (PStr ''a'') [] =
       (Inl (TypeError (type_error_message (PStr ''a''))), [])
   \<and> isinstance_int_float (PInt 5) \<and> isinstance_int_float (PInt 0) \<and> py_eq_zero (PInt 0)"
proof -
  have "fst (dividir (PInt 5) (PInt 0) []) = Inl (ValueError ''No se puede dividir por cero'')"
    by (simp add: dividir_def)
  then have "\<exists>msg. fst (dividir (PInt 5) (PInt 0) []) = Inl (ValueError msg)"
    by blast
  then show ?thesis
    using type_validation_precedes_domain_checks
        [where a = "PStr ''a''" and b = "PInt 0" and lg = "[]" and x = "PStr ''a''"
           and lm = sample_libm]
      type_validation_precedes_domain_checks
        [where a = "PInt 5" and b = "PInt 0" and lg = "[]" and x = "PStr ''a''"
           and lm = sample_libm]
    by simp
qed

text \<open>
  C10. Booleans pass the validation of every method, alone or beside another number:
  no call whose arguments are booleans raises TypeError. For every number \<open>a\<close>,
  \<open>dividir(a, False)\<close> logs the ERROR record of the division by zero and raises
  ValueError.
\<close>

theorem booleans_are_accepted_as_numbers:
  "(\<forall>m \<in> set (binary_methods lm). \<forall>p q msg.
       fst (m (PBool p) (PBool q) lg) \<noteq> Inl (TypeError msg)
     \<and> (isinstance_int_float a \<longrightarrow>
          fst (m (PBool p) a lg) \<noteq> Inl (TypeError msg)
        \<and> fst (m a (PBool p) lg) \<noteq> Inl (TypeError msg)))
   \<and> (\<forall>m \<in> set (unary_methods lm). \<forall>p msg. fst (m (PBool p) lg) \<noteq> Inl (TypeError msg))
   \<and> (isinstance_int_float a \<longrightarrow>
        dividir a (PBool False) lg =
          (Inl (ValueError ''No se puede dividir por cero''),
           lg @ [LogRecord ERROR
                   (''Intento de divisi'' @ o_acute
                      @ ''n por cero al intentar dividir %d por %d'')
                   [a, PBool False]]))"
proof (intro conjI ballI allI impI)
  fix m p q msg
  assume m: "m \<in> set (binary_methods lm)"
  show "fst (m (PBool p) (PBool q) lg) \<noteq> Inl (TypeError msg)"
    using binary_numeric_not_TypeError[OF _ _ m] by simp
  assume a: "isinstance_int_float a"
  show "fst (m (PBool p) a lg) \<noteq> Inl (TypeError msg)"
    using binary_numeric_not_TypeError[OF _ a m] by simp
  show "fst (m a (PBool p) lg) \<noteq> Inl (TypeError msg)"
    using binary_numeric_not_TypeError[OF a _ m] by simp
next
  fix m p msg
  assume "m \<in> set (unary_methods lm)"
  then show "fst (m (PBool p) lg) \<noteq> Inl (TypeError msg)"
    using unary_numeric_not_TypeError by simp
next
  assume "isinstance_int_float a"
  then show "dividir a (PBool False) lg =
          (Inl (ValueError ''No se puede dividir por cero''),
           lg @ [LogRecord ERROR
                   (''Intento de divisi'' @ o_acute
                      @ ''n por cero al intentar dividir %d por %d'')
                   [a, PBool False]])"
    by (simp add: dividir_def)
qed

theorem booleans_are_accepted_as_numbers_witness:
  "dividir (PInt 5) (PBool False) [] =
     (Inl (ValueError ''No se puede dividir por cero''),
      [LogRecord ERROR
         (''Intento de divisi'' @ o_acute @ ''n por cero al intentar dividir %d por %d'')
         [PInt 5, PBool False]])
   \<and> (\<forall>msg. fst (multiplicar (PBool True) (PInt 5) []) \<noteq> Inl (TypeError msg))
   \<and> (\<forall>msg. fst (seno sample_libm (PBool True) []) \<noteq> Inl (TypeError msg))"
  using booleans_are_accepted_as_numbers [where lg = "[]" and a = "PInt 5" and lm = sample_libm]
  by (simp add: binary_methods_def unary_methods_def)

section \<open>The log and the state\<close>

lemma binary_method_log:
  assumes "m \<in> set (binary_methods lm)"
  shows "snd (m a b l) = l @ snd (m a b [])"
    and "length (snd (m a b [])) =
           (if isinstance_int_float a \<and> isinstance_int_float b then 1 else 0)"
  using assms by (auto simp: binary_methods_def binary_defs)

lemma unary_method_log:
  assumes "m \<in> set (unary_methods lm)"
  shows "snd (m x l) = l @ snd (m x [])"
    and "length (snd (m x [])) = (if isinstance_int_float x then 1 else 0)"
  using assms by (auto simp: unary_methods_def unary_defs)

lemma binary_method_result:
  assumes "m \<in> set (binary_methods lm)"
  shows "fst (m a b l') = fst (m a b l)"
  using assms by (auto simp: binary_methods_def binary_defs split: sum.splits)

lemma unary_method_result:
  assumes "m \<in> set (unary_methods lm)"
  shows "fst (m x l') = fst (m x l)"
  using assms by (auto simp: unary_methods_def unary_defs split: sum.splits)

text \<open>
  C9, as the claim states it, fails on arguments that do not pass the validation: two
  calls of \<open>sumar\<close> with a string raise the same TypeError and append no record at
  all, not two.
\<close>

theorem two_calls_with_a_string_log_nothing:
  "fst (sumar (PStr ''5'') (PInt 3) (snd (sumar (PStr ''5'') (PInt 3) [])))
     = fst (sumar (PStr ''5'') (PInt 3) [])
   \<and> length (snd (sumar (PStr ''5'') (PInt 3) (snd (sumar (PStr ''5'') (PInt 3) []))))
       \<noteq> length ([] :: log) + 2"
  by (simp add: sumar_def)

text \<open>
  C9, amended. The value returned or the exception raised by a method does not depend
  on the log, the only state there is, so a second call with the same arguments ends as
  the first one did. Each call appends the same records to the log: one record when
  the arguments pass the validation, so two calls append two records; none when an
  argument is no number, so two calls append none.
\<close>

theorem calls_are_repeatable:
  "(\<forall>m \<in> set (binary_methods lm).
       fst (m a b lg') = fst (m a b lg)
     \<and> fst (m a b (snd (m a b lg))) = fst (m a b lg)
     \<and> (\<exists>recs. snd (m a b lg) = lg @ recs
            \<and> snd (m a b (snd (m a b lg))) = lg @ recs @ recs
            \<and> length recs = (if isinstance_int_float a \<and> isinstance_int_float b then 1 else 0)))
   \<and> (\<forall>m \<in> set (unary_methods lm).
       fst (m x lg') = fst (m x lg)
     \<and> fst (m x (snd (m x lg))) = fst (m x lg)
     \<and> (\<exists>recs. snd (m x lg) = lg @ recs
            \<and> snd (m x (snd (m x lg))) = lg @ recs @ recs
            \<and> length recs = (if isinstance_int_float x then 1 else 0)))"
proof (intro conjI ballI)
  fix m assume m: "m \<in> set (binary_methods lm)"
  show "fst (m a b lg') = fst (m a b lg)" by (rule binary_method_result[OF m])
  show "fst (m a b (snd (m a b lg))) = fst (m a b lg)" by (rule binary_method_result[OF m])
  show "\<exists>recs. snd (m a b lg) = lg @ recs
            \<and> snd (m a b (snd (m a b lg))) = lg @ recs @ recs
            \<and> length recs = (if isinstance_int_float a \<and> isinstance_int_float b then 1 else 0)"
  proof (intro exI[of _ "snd (m a b [])"] conjI)
    show 1: "snd (m a b lg) = lg @ snd (m a b [])"
      by (rule binary_method_log(1)[OF m])
    show "snd (m a b (snd (m a b lg))) = lg @ snd (m a b []) @ snd (m a b [])"
      unfolding 1 by (subst binary_method_log(1)[OF m]) simp
    show "length (snd (m a b [])) =
            (if isinstance_int_float a \<and> isinstance_int_float b then 1 else 0)"
      by (rule binary_method_log(2)[OF m])
  qed
next
  fix m assume m: "m \<in> set (unary_methods lm)"
  show "fst (m x lg') = fst (m x lg)" by (rule unary_method_result[OF m])
  show "fst (m x (snd (m x lg))) = fst (m x lg)" by (rule unary_method_result[OF m])
  show "\<exists>recs. snd (m x lg) = lg @ recs
            \<and> snd (m x (snd (m x lg))) = lg @ recs @ recs
            \<and> length recs = (if isinstance_int_float x then 1 else 0)"
  proof (intro exI[of _ "snd (m x [])"] conjI)
    show 1: "snd (m x lg) = lg @ snd (m x [])"
      by (rule unary_method_log(1)[OF m])
    show "snd (m x (snd (m x lg))) = lg @ snd (m x []) @ snd (m x [])"
      unfolding 1 by (subst unary_method_log(1)[OF m]) simp
    show "length (snd (m x [])) = (if isinstance_int_float x then 1 else 0)"
      by (rule unary_method_log(2)[OF m])
  qed
qed

theorem calls_are_repeatable_witness:
  "fst (sumar (PInt 5) (PInt 3) (snd (sumar (PInt 5) (PInt 3) []))) = Inr (PInt 8)
   \<and> length (snd (sumar (PInt 5) (PInt 3) (snd (sumar (PInt 5) (PInt 3) [])))) = 2
   \<and> length (snd (dividir (PInt 5) (PInt 0) (snd (dividir (PInt 5) (PInt 0) [])))) = 2
   \<and> length (snd (seno sample_libm (PStr ''x'') (snd (seno sample_libm (PStr ''x'') [])))) = 0"
proof -
  have s: "fst (sumar (PInt 5) (PInt 3) []) = Inr (PInt 8)"
    by (simp add: sumar_def py_add_def)
  show ?thesis
    using calls_are_repeatable
        [where a = "PInt 5" and b = "PInt 3" and lg = "[]" and lg' = "[]"
           and x = "PStr ''x''" and lm = sample_libm]
      calls_are_repeatable
        [where a = "PInt 5" and b = "PInt 0" and lg = "[]" and lg' = "[]"
           and x = "PStr ''x''" and lm = sample_libm] s
    by (auto simp: binary_methods_def unary_methods_def)
qed

section \<open>Rounding\<close>

lemma round_half_even_error: "\<bar>of_int (round_half_even y) - y\<bar> \<le> 1 / 2"
  unfolding round_half_even_def Let_def by (auto simp: abs_if; linarith)

lemma round_half_even_nonneg: "0 \<le> y \<Longrightarrow> 0 \<le> round_half_even y"
  unfolding round_half_even_def Let_def by (auto; linarith)

lemma round_half_even_of_int: "round_half_even (of_int n) = n"
  unfolding round_half_even_def Let_def by simp

lemma nearest_nonneg: "0 \<le> x \<Longrightarrow> 0 \<le> nearest x"
  unfolding nearest_def by (simp add: round_half_even_nonneg)

lemma two_powi_floor_log:
  assumes "0 < (x::real)"
  shows "2 powi \<lfloor>log 2 x\<rfloor> \<le> x" and "x < 2 powi (\<lfloor>log 2 x\<rfloor> + 1)"
proof -
  have a: "2 powr real_of_int k = (2::real) powi k" for k
    by (simp add: powr_real_of_int')
  have "1 < (2::real)" by simp
  from floor_log_eq_powr_iff[OF assms this, of "\<lfloor>log 2 x\<rfloor>"]
  have "2 powr real_of_int \<lfloor>log 2 x\<rfloor> \<le> x \<and> x < 2 powr real_of_int (\<lfloor>log 2 x\<rfloor> + 1)"
    by blast
  then show "2 powi \<lfloor>log 2 x\<rfloor> \<le> x" and "x < 2 powi (\<lfloor>log 2 x\<rfloor> + 1)"
    unfolding a by blast+
qed

lemma floor_log_ge:
  assumes "2 powi k \<le> (x::real)"
  shows "k \<le> \<lfloor>log 2 x\<rfloor>"
proof -
  have pos: "0 < x" using assms by (smt (verit) zero_less_power_int)
  have "2 powr real_of_int k \<le> x" using assms by (simp add: powr_real_of_int')
  then have "real_of_int k \<le> log 2 x" using pos by (simp add: le_log_iff)
  then show ?thesis by (simp add: le_floor_iff)
qed

lemma nearest_error_ulp:
  assumes "x \<noteq> 0"
  shows "\<bar>nearest x - x\<bar> \<le> 2 powi ulp_exponent x / 2"
proof -
  define e where "e = ulp_exponent x"
  have p: "0 < (2::real) powi e" by simp
  have "nearest x - x = (of_int (round_half_even (x / 2 powi e)) - x / 2 powi e) * 2 powi e"
    using assms p by (simp add: nearest_def e_def algebra_simps)
  then have "\<bar>nearest x - x\<bar> = \<bar>of_int (round_half_even (x / 2 powi e)) - x / 2 powi e\<bar> * 2 powi e"
    by (simp add: abs_mult)
  also have "\<dots> \<le> (1 / 2) * 2 powi e"
    using round_half_even_error[of "x / 2 powi e"] p by (intro mult_right_mono) simp_all
  finally show ?thesis by (simp add: e_def)
qed

lemma nearest_rel_error:
  assumes "2 powi (- 1022) \<le> \<bar>x\<bar>"
  shows "\<bar>nearest x - x\<bar> \<le> 2 powi (- 53) * \<bar>x\<bar>"
proof -
  have pos: "0 < \<bar>x\<bar>" using assms by (smt (verit) zero_less_power_int)
  define k where "k = \<lfloor>log 2 \<bar>x\<bar>\<rfloor>"
  have k: "- 1022 \<le> k" unfolding k_def using assms by (rule floor_log_ge)
  have e: "ulp_exponent x = k - 52"
    unfolding ulp_exponent_def k_def[symmetric] using k by simp
  have "\<bar>nearest x - x\<bar> \<le> 2 powi (k - 52) / 2"
    using nearest_error_ulp[of x] pos e by auto
  also have "\<dots> = 2 powi (- 53) * 2 powi k"
    by (simp add: power_int_diff power_int_minus field_simps)
  also have "\<dots> \<le> 2 powi (- 53) * \<bar>x\<bar>"
    using two_powi_floor_log(1)[OF pos] by (intro mult_left_mono) (simp_all add: k_def)
  finally show ?thesis .
qed


lemma nearest_of_int:
  assumes "\<bar>i\<bar> < 2 ^ 53"
  shows "nearest (of_int i) = of_int i"
proof (cases "i = 0")
  case True
  then show ?thesis by (simp add: nearest_def)
next
  case False
  let ?x = "of_int i :: real"
  define k where "k = \<lfloor>log 2 \<bar>?x\<bar>\<rfloor>"
  have pos: "0 < \<bar>?x\<bar>" using False by simp
  have "1 \<le> \<bar>?x\<bar>" using False by simp
  then have "(2::real) powi 0 \<le> \<bar>?x\<bar>" by simp
  then have k0: "0 \<le> k" unfolding k_def by (rule floor_log_ge)
  have "\<bar>?x\<bar> < 2 ^ 53" using assms
    by (metis of_int_abs of_int_less_numeral_power_cancel_iff)
  then have "(2::real) powi k < 2 powi 53"
    using two_powi_floor_log(1)[OF pos] by (simp add: k_def)
  then have k53: "k < 53"
    using power_int_le_imp_less_exp[of "2::real" k 53] by simp
  have e: "ulp_exponent ?x = k - 52"
    unfolding ulp_exponent_def k_def[symmetric] using k0 by simp
  have q: "?x / 2 powi (k - 52) = of_int (i * 2 ^ nat (52 - k))"
    using k53 k0 by (simp add: power_int_diff power_int_def field_simps flip: power_add)
  have "round_half_even (?x / 2 powi (k - 52)) = i * 2 ^ nat (52 - k)"
    unfolding q by (rule round_half_even_of_int)
  then have "nearest ?x = of_int (i * 2 ^ nat (52 - k)) * 2 powi (k - 52)"
    using False by (simp add: nearest_def e)
  also have "\<dots> = ?x"
    using k53 k0 by (simp add: power_int_diff power_int_def field_simps flip: power_add)
  finally show ?thesis .
qed

lemma overflow_threshold_gt_1: "1 < overflow_threshold"
  by (simp add: overflow_threshold_def)

lemma fl_finite: "\<bar>x\<bar> < overflow_threshold \<Longrightarrow> fl x = Fin (nearest x)"
  by (simp add: fl_def abs_if split: if_splits)

lemma to_double_int: "isinstance_int v \<Longrightarrow> to_double v = int_to_double (int_of v)"
  by (cases v) simp_all

lemma int_to_double_finite:
  "\<bar>of_int i :: real\<bar> < overflow_threshold \<Longrightarrow> int_to_double i = Inr (Fin (nearest (of_int i)))"
  by (simp add: int_to_double_def)

lemma int_to_double_overflow:
  "overflow_threshold \<le> \<bar>of_int i :: real\<bar> \<Longrightarrow>
     int_to_double i = Inl (OverflowError ''int too large to convert to float'')"
  by (simp add: int_to_double_def)

lemma big_int_overflows: "overflow_threshold \<le> \<bar>of_int (10 ^ 400) :: real\<bar>"
  by (simp add: overflow_threshold_def)

section \<open>The trigonometric functions\<close>

text \<open>
  C3, as the claim states it, fails at an infinite angle: \<open>float('inf')\<close> passes the
  validation, the INFO record is logged, and \<open>math.sin\<close> raises ValueError, whatever
  the C library.
\<close>

theorem seno_infinity_raises_ValueError:
  "seno sample_libm (PFloat PInf) [] =
     (Inl (ValueError ''math domain error''),
      [LogRecord INFO ''Calculando seno de %f radianes'' [PFloat PInf]])"
  by (simp add: seno_def math_sin_def math_1_def)

text \<open>
  C3, amended. Every number passes the validation of \<open>seno\<close>, \<open>coseno\<close> and
  \<open>tangente\<close>, and one INFO record is logged. The angle is then converted to a
  double: a float is its own double, an integer or boolean of magnitude below
  \<open>2^1024 - 2^970\<close> converts to the nearest double. At a finite double \<open>v\<close>,
  \<open>seno\<close> and \<open>coseno\<close> raise nothing and return the C library's \<open>sin v\<close> and
  \<open>cos v\<close>, and \<open>tangente\<close> returns the C library's \<open>tan v\<close> whenever that is a
  finite double. At a NaN the three return a NaN. At an infinity the three raise
  ValueError, and at an integer too large for a float they raise OverflowError.
\<close>

theorem trigonometric_functions_outcomes:
  assumes "isinstance_int_float angulo"
  shows
  "snd (seno lm angulo lg) = lg @ [LogRecord INFO ''Calculando seno de %f radianes'' [angulo]]
   \<and> snd (coseno lm angulo lg) =
        lg @ [LogRecord INFO ''Calculando coseno de %f radianes'' [angulo]]
   \<and> snd (tangente lm angulo lg) =
        lg @ [LogRecord INFO ''Calculando tangente de %f radianes'' [angulo]]
   \<and> (\<forall>v. to_double angulo = Inr (Fin v) \<longrightarrow>
         fst (seno lm angulo lg) = Inr (PFloat (Fin (lm_sin lm v)))
       \<and> fst (coseno lm angulo lg) = Inr (PFloat (Fin (lm_cos lm v)))
       \<and> (\<forall>r. lm_tan lm v = Fin r \<longrightarrow> fst (tangente lm angulo lg) = Inr (PFloat (Fin r))))
   \<and> (angulo = PFloat NaN \<longrightarrow>
         fst (seno lm angulo lg) = Inr (PFloat NaN)
       \<and> fst (coseno lm angulo lg) = Inr (PFloat NaN)
       \<and> fst (tangente lm angulo lg) = Inr (PFloat NaN))
   \<and> (angulo = PFloat PInf \<or> angulo = PFloat NInf \<longrightarrow>
         fst (seno lm angulo lg) = Inl (ValueError ''math domain error'')
       \<and> fst (coseno lm angulo lg) = Inl (ValueError ''math domain error'')
       \<and> fst (tangente lm angulo lg) = Inl (ValueError ''math domain error''))
   \<and> (\<forall>f. angulo = PFloat f \<longrightarrow> to_double angulo = Inr f)
   \<and> (isinstance_int angulo \<and> \<bar>of_int (int_of angulo)\<bar> < overflow_threshold \<longrightarrow>
         to_double angulo = Inr (Fin (nearest (of_int (int_of angulo)))))
   \<and> (isinstance_int angulo \<and> overflow_threshold \<le> \<bar>of_int (int_of angulo)\<bar> \<longrightarrow>
         fst (seno lm angulo lg) = Inl (OverflowError ''int too large to convert to float'')
       \<and> fst (coseno lm angulo lg) = Inl (OverflowError ''int too large to convert to float'')
       \<and> fst (tangente lm angulo lg) =
           Inl (OverflowError ''int too large to convert to float''))"
proof -
  have v: "validar_numeros [angulo] = Inr ()" using assms by simp
  have fin: "fst (seno lm angulo lg) = Inr (PFloat (Fin (lm_sin lm v)))
       \<and> fst (coseno lm angulo lg) = Inr (PFloat (Fin (lm_cos lm v)))
       \<and> (\<forall>r. lm_tan lm v = Fin r \<longrightarrow> fst (tangente lm angulo lg) = Inr (PFloat (Fin r)))"
    if "to_double angulo = Inr (Fin v)" for v
    using that v
    by (simp add: seno_def coseno_def tangente_def math_defs math_1_def)
  have ovf: "fst (seno lm angulo lg) = Inl (OverflowError ''int too large to convert to float'')
       \<and> fst (coseno lm angulo lg) = Inl (OverflowError ''int too large to convert to float'')
       \<and> fst (tangente lm angulo lg) =
           Inl (OverflowError ''int too large to convert to float'')"
    if "isinstance_int angulo" "overflow_threshold \<le> \<bar>of_int (int_of angulo) :: real\<bar>"
    using that v
    by (simp add: seno_def coseno_def tangente_def math_defs math_1_def to_double_int
        int_to_double_overflow)
  show ?thesis
    using v fin ovf
    by (auto simp: seno_def coseno_def tangente_def math_defs math_1_def to_double_int
        int_to_double_finite)
qed

theorem trigonometric_functions_outcomes_witness:
  "fst (seno sample_libm (PInt 0) []) = Inr (PFloat (Fin 0))
   \<and> fst (coseno sample_libm (PFloat (Fin 0)) []) = Inr (PFloat (Fin 1))
   \<and> fst (tangente sample_libm (PFloat (Fin 0)) []) = Inr (PFloat (Fin 0))
   \<and> fst (tangente sample_libm (PFloat NInf) []) = Inl (ValueError ''math domain error'')
   \<and> fst (coseno sample_libm (PInt (10 ^ 400)) []) =
       Inl (OverflowError ''int too large to convert to float'')"
proof (intro conjI)
  have n: "nearest 0 = 0" "nearest 1 = 1"
    using nearest_of_int[of 0] nearest_of_int[of 1] by simp_all
  have a: "to_double (PInt 0) = Inr (Fin 0)"
    using int_to_double_finite[of 0] overflow_threshold_gt_1 by (simp add: n)
  have l: "lm_sin sample_libm 0 = 0" "lm_cos sample_libm 0 = 1" "lm_tan sample_libm 0 = Fin 0"
    using overflow_threshold_gt_1 by (simp_all add: sample_libm_def n fl_finite)
  show "fst (seno sample_libm (PInt 0) []) = Inr (PFloat (Fin 0))"
    using trigonometric_functions_outcomes [of "PInt 0" sample_libm "[]"] a l by simp
  show "fst (coseno sample_libm (PFloat (Fin 0)) []) = Inr (PFloat (Fin 1))"
    using trigonometric_functions_outcomes [of "PFloat (Fin 0)" sample_libm "[]"] l by simp
  show "fst (tangente sample_libm (PFloat (Fin 0)) []) = Inr (PFloat (Fin 0))"
    using trigonometric_functions_outcomes [of "PFloat (Fin 0)" sample_libm "[]"] l by simp
  show "fst (tangente sample_libm (PFloat NInf) []) = Inl (ValueError ''math domain error'')"
    using trigonometric_functions_outcomes [of "PFloat NInf" sample_libm "[]"] by simp
  have "isinstance_int_float (PInt (10 ^ 400))" "isinstance_int (PInt (10 ^ 400))"
    "overflow_threshold \<le> \<bar>of_int (int_of (PInt (10 ^ 400))) :: real\<bar>"
    using big_int_overflows by (simp_all del: of_int_power)
  then show "fst (coseno sample_libm (PInt (10 ^ 400)) []) =
      Inl (OverflowError ''int too large to convert to float'')"
    using trigonometric_functions_outcomes [of "PInt (10 ^ 400)" sample_libm "[]"] by blast
qed

section \<open>The power\<close>

lemma is_integer_0: "is_integer 0"
  by (simp add: is_integer_def)

text \<open>
  C2, as the claim states it, fails at base zero with a negative exponent: both
  integers pass the validation, the INFO record is logged, and \<open>math.pow\<close> raises
  ValueError, whatever the C library.
\<close>

theorem potencia_zero_to_negative_raises_ValueError:
  "potencia sample_libm (PInt 0) (PInt (- 1)) [] =
     (Inl (ValueError ''math domain error''),
      [LogRecord INFO ''Calculando %d ^ %d'' [PInt 0, PInt (- 1)]])"
proof -
  have "nearest (- 1) = - 1" "nearest 0 = 0"
    using nearest_of_int[of "- 1"] nearest_of_int[of 0] by simp_all
  then have "to_double (PInt 0) = Inr (Fin 0)" "to_double (PInt (- 1)) = Inr (Fin (- 1))"
    using int_to_double_finite[of 0] int_to_double_finite[of "- 1"] overflow_threshold_gt_1
    by simp_all
  then show ?thesis
    by (simp add: potencia_def math_pow_def c_pow_def)
qed

text \<open>
  C2, amended. With two numbers \<open>potencia\<close> passes the validation and logs one INFO
  record; \<open>math.pow\<close> then converts both to doubles, and an integer too large for a
  float among them raises OverflowError. When both convert to finite doubles \<open>x\<close>
  and \<open>y\<close>: the result is 1.0 when \<open>y\<close> is zero; ValueError when \<open>x\<close> is zero and \<open>y\<close>
  negative; 0.0 when \<open>x\<close> is zero and \<open>y\<close> positive; ValueError when \<open>x\<close> is negative
  and \<open>y\<close> no integer; and in every other case what the C library's \<open>pow x y\<close>
  gives: a finite double is returned, an infinity raises OverflowError (and a NaN, which
  C99 rules out there, would raise ValueError). With an infinity or a NaN among the
  converted arguments it returns the float that \<open>math.pow\<close> fixes for the case
  (\<open>pow_special\<close>) and raises nothing.
\<close>

theorem potencia_outcomes:
  assumes "isinstance_int_float base" and "isinstance_int_float exponente"
  shows
  "snd (potencia lm base exponente lg) =
     lg @ [LogRecord INFO ''Calculando %d ^ %d'' [base, exponente]]
   \<and> ((isinstance_int base \<and> overflow_threshold \<le> \<bar>of_int (int_of base)\<bar>)
        \<or> (isinstance_int exponente \<and> overflow_threshold \<le> \<bar>of_int (int_of exponente)\<bar>) \<longrightarrow>
        fst (potencia lm base exponente lg) =
          Inl (OverflowError ''int too large to convert to float''))
   \<and> (\<forall>x y. to_double base = Inr (Fin x) \<and> to_double exponente = Inr (Fin y) \<longrightarrow>
        (y = 0 \<longrightarrow> fst (potencia lm base exponente lg) = Inr (PFloat (Fin 1)))
      \<and> (x = 0 \<and> y < 0 \<longrightarrow>
           fst (potencia lm base exponente lg) = Inl (ValueError ''math domain error''))
      \<and> (x = 0 \<and> 0 < y \<longrightarrow> fst (potencia lm base exponente lg) = Inr (PFloat (Fin 0)))
      \<and> (x < 0 \<and> \<not> is_integer y \<longrightarrow>
           fst (potencia lm base exponente lg) = Inl (ValueError ''math domain error''))
      \<and> (x \<noteq> 0 \<and> y \<noteq> 0 \<and> (0 < x \<or> is_integer y) \<longrightarrow>
           (\<forall>r. lm_pow lm x y = Fin r \<longrightarrow>
              fst (potencia lm base exponente lg) = Inr (PFloat (Fin r)))
         \<and> (is_inf (lm_pow lm x y) \<longrightarrow>
              fst (potencia lm base exponente lg) = Inl (OverflowError ''math range error''))
         \<and> (is_nan (lm_pow lm x y) \<longrightarrow>
              fst (potencia lm base exponente lg) = Inl (ValueError ''math domain error''))))
   \<and> (\<forall>x y. to_double base = Inr x \<and> to_double exponente = Inr y
          \<and> (\<not> is_finite x \<or> \<not> is_finite y) \<longrightarrow>
        fst (potencia lm base exponente lg) = Inr (PFloat (pow_special lm x y)))"
proof -
  have p: "potencia lm base exponente lg =
     (math_pow lm base exponente,
      lg @ [LogRecord INFO ''Calculando %d ^ %d'' [base, exponente]])"
    using assms by (simp add: potencia_def)
  have fin: "(y = 0 \<longrightarrow> math_pow lm base exponente = Inr (PFloat (Fin 1)))
      \<and> (x = 0 \<and> y < 0 \<longrightarrow> math_pow lm base exponente = Inl (ValueError ''math domain error''))
      \<and> (x = 0 \<and> 0 < y \<longrightarrow> math_pow lm base exponente = Inr (PFloat (Fin 0)))
      \<and> (x < 0 \<and> \<not> is_integer y \<longrightarrow>
           math_pow lm base exponente = Inl (ValueError ''math domain error''))
      \<and> (x \<noteq> 0 \<and> y \<noteq> 0 \<and> (0 < x \<or> is_integer y) \<longrightarrow>
           (\<forall>r. lm_pow lm x y = Fin r \<longrightarrow> math_pow lm base exponente = Inr (PFloat (Fin r)))
         \<and> (is_inf (lm_pow lm x y) \<longrightarrow>
              math_pow lm base exponente = Inl (OverflowError ''math range error''))
         \<and> (is_nan (lm_pow lm x y) \<longrightarrow>
              math_pow lm base exponente = Inl (ValueError ''math domain error'')))"
    if xy: "to_double base = Inr (Fin x)" "to_double exponente = Inr (Fin y)" for x y
  proof -
    have m: "math_pow lm base exponente =
       (if is_nan (c_pow lm x y) then Inl (ValueError ''math domain error'')
        else if is_inf (c_pow lm x y) then
          (if x = 0 then Inl (ValueError ''math domain error'')
           else Inl (OverflowError ''math range error''))
        else Inr (PFloat (c_pow lm x y)))"
      by (simp add: math_pow_def xy Let_def)
    show ?thesis
    proof (intro conjI impI allI)
      assume "y = 0"
      then show "math_pow lm base exponente = Inr (PFloat (Fin 1))"
        unfolding m by (simp add: c_pow_def)
    next
      assume "x = 0 \<and> y < 0"
      then show "math_pow lm base exponente = Inl (ValueError ''math domain error'')"
        unfolding m by (simp add: c_pow_def)
    next
      assume "x = 0 \<and> 0 < y"
      then show "math_pow lm base exponente = Inr (PFloat (Fin 0))"
        unfolding m by (simp add: c_pow_def)
    next
      assume "x < 0 \<and> \<not> is_integer y"
      then show "math_pow lm base exponente = Inl (ValueError ''math domain error'')"
        unfolding m using is_integer_0 by (auto simp: c_pow_def)
    next
      fix r
      assume "x \<noteq> 0 \<and> y \<noteq> 0 \<and> (0 < x \<or> is_integer y)" "lm_pow lm x y = Fin r"
      then show "math_pow lm base exponente = Inr (PFloat (Fin r))"
        unfolding m by (auto simp: c_pow_def)
    next
      assume "x \<noteq> 0 \<and> y \<noteq> 0 \<and> (0 < x \<or> is_integer y)" "is_inf (lm_pow lm x y)"
      then show "math_pow lm base exponente = Inl (OverflowError ''math range error'')"
        unfolding m by (cases "lm_pow lm x y") (auto simp: c_pow_def)
    next
      assume "x \<noteq> 0 \<and> y \<noteq> 0 \<and> (0 < x \<or> is_integer y)" "is_nan (lm_pow lm x y)"
      then show "math_pow lm base exponente = Inl (ValueError ''math domain error'')"
        unfolding m by (cases "lm_pow lm x y") (auto simp: c_pow_def)
    qed
  qed
  have inf: "math_pow lm base exponente = Inr (PFloat (pow_special lm x y))"
    if "to_double base = Inr x" "to_double exponente = Inr y" "\<not> is_finite x \<or> \<not> is_finite y"
    for x y
    using that by (cases x; cases y) (simp_all add: math_pow_def)
  have ovf: "math_pow lm base exponente =
      Inl (OverflowError ''int too large to convert to float'')"
    if "(isinstance_int base \<and> overflow_threshold \<le> \<bar>of_int (int_of base) :: real\<bar>)
        \<or> (isinstance_int exponente \<and> overflow_threshold \<le> \<bar>of_int (int_of exponente) :: real\<bar>)"
  proof (cases "isinstance_int base \<and> overflow_threshold \<le> \<bar>of_int (int_of base) :: real\<bar>")
    case True
    then show ?thesis by (simp add: math_pow_def to_double_int int_to_double_overflow)
  next
    case False
    with that have e: "isinstance_int exponente"
      "overflow_threshold \<le> \<bar>of_int (int_of exponente) :: real\<bar>" by auto
    obtain x where "to_double base = Inr x"
      using False assms(1) by (cases base) (auto simp: int_to_double_def)
    then show ?thesis using e
      by (simp add: math_pow_def to_double_int int_to_double_overflow)
  qed
  show ?thesis
    unfolding p fst_conv snd_conv
    apply (intro conjI)
       apply (rule refl)
      apply (rule impI, erule ovf)
     apply (intro allI impI, erule conjE, erule (1) fin)
    apply (intro allI impI, elim conjE, erule (2) inf)
    done
qed

theorem potencia_outcomes_witness:
  "potencia sample_libm (PInt 2) (PInt 3) [] =
     (Inr (PFloat (Fin 8)), [LogRecord INFO ''Calculando %d ^ %d'' [PInt 2, PInt 3]])
   \<and> fst (potencia sample_libm (PFloat (Fin (- 8))) (PFloat (Fin (1 / 2))) []) =
       Inl (ValueError ''math domain error'')"
proof (intro conjI)
  have n: "nearest 2 = 2" "nearest 3 = 3" "nearest 8 = 8"
    using nearest_of_int[of 2] nearest_of_int[of 3] nearest_of_int[of 8] by simp_all
  have d: "to_double (PInt 2) = Inr (Fin 2)" "to_double (PInt 3) = Inr (Fin 3)"
    using int_to_double_finite[of 2] int_to_double_finite[of 3] n
    by (simp_all add: overflow_threshold_def)
  have t: "(8::real) < overflow_threshold" by (simp add: overflow_threshold_def)
  have l: "lm_pow sample_libm 2 3 = Fin 8"
    using t n by (simp add: sample_libm_def fl_finite)
  have "snd (potencia sample_libm (PInt 2) (PInt 3) []) =
          [LogRecord INFO ''Calculando %d ^ %d'' [PInt 2, PInt 3]]
        \<and> fst (potencia sample_libm (PInt 2) (PInt 3) []) = Inr (PFloat (Fin 8))"
    using potencia_outcomes [of "PInt 2" "PInt 3" sample_libm "[]"] d l by simp
  then show "potencia sample_libm (PInt 2) (PInt 3) [] =
     (Inr (PFloat (Fin 8)), [LogRecord INFO ''Calculando %d ^ %d'' [PInt 2, PInt 3]])"
    by (simp add: prod_eq_iff)
  have i: "\<not> is_integer (1 / 2)"
    by (simp add: is_integer_def)
  have c: "to_double (PFloat (Fin (- 8))) = Inr (Fin (- 8))
           \<and> to_double (PFloat (Fin (1 / 2))) = Inr (Fin (1 / 2))"
    by simp
  have "isinstance_int_float (PFloat (Fin (- 8)))" "isinstance_int_float (PFloat (Fin (1 / 2)))"
    by simp_all
  from potencia_outcomes [OF this, of sample_libm "[]", THEN conjunct2, THEN conjunct2,
      THEN conjunct1, rule_format, OF c]
  show "fst (potencia sample_libm (PFloat (Fin (- 8))) (PFloat (Fin (1 / 2))) []) =
       Inl (ValueError ''math domain error'')"
    using i by simp
qed

section \<open>Sum, difference and product\<close>

lemma nearest_of_int_nonzero:
  assumes "i \<noteq> 0"
  shows "nearest (of_int i) \<noteq> 0"
proof -
  let ?x = "of_int i :: real"
  have 1: "1 \<le> \<bar>?x\<bar>" using assms by simp
  have "(2::real) powi (- 1022) \<le> 1" by (simp add: power_int_minus field_simps)
  then have "\<bar>nearest ?x - ?x\<bar> \<le> 2 powi (- 53) * \<bar>?x\<bar>"
    using 1 by (intro nearest_rel_error) linarith
  moreover have "(2::real) powi (- 53) < 1" by (simp add: power_int_minus field_simps)
  ultimately have "\<bar>nearest ?x - ?x\<bar> < \<bar>?x\<bar>" using 1
    by (smt (verit) mult_less_cancel_right2)
  then show ?thesis by auto
qed

lemma f_div_nonzero: "y \<noteq> Fin 0 \<Longrightarrow> \<exists>q. f_div x y = Inr q"
  by (cases x; cases y) simp_all

lemma to_double_nonzero:
  assumes "isinstance_int_float v" "\<not> py_eq_zero v" "to_double v = Inr y"
  shows "y \<noteq> Fin 0"
proof (cases v)
  case (PInt i)
  then show ?thesis using assms nearest_of_int_nonzero[of i]
    by (auto simp: int_to_double_def split: if_splits)
next
  case (PBool p)
  then show ?thesis using assms nearest_of_int_nonzero[of 1]
    by (auto simp: int_to_double_def split: if_splits)
next
  case (PFloat f)
  then show ?thesis using assms by (cases f) auto
qed (use assms in simp_all)

lemma float_binop_overflow:
  assumes "isinstance_int_float a" "isinstance_int_float b"
    and "(isinstance_int a \<and> overflow_threshold \<le> \<bar>of_int (int_of a) :: real\<bar>)
        \<or> (isinstance_int b \<and> overflow_threshold \<le> \<bar>of_int (int_of b) :: real\<bar>)"
  shows "float_binop f a b = Inl (OverflowError ''int too large to convert to float'')"
proof (cases "isinstance_int a \<and> overflow_threshold \<le> \<bar>of_int (int_of a) :: real\<bar>")
  case True
  then show ?thesis by (simp add: float_binop_def to_double_int int_to_double_overflow)
next
  case False
  with assms(3) have e: "isinstance_int b" "overflow_threshold \<le> \<bar>of_int (int_of b) :: real\<bar>"
    by auto
  obtain x where "to_double a = Inr x"
    using False assms(1) by (cases a) (auto simp: int_to_double_def)
  then show ?thesis using e
    by (simp add: float_binop_def to_double_int int_to_double_overflow)
qed

lemma float_binop_value:
  assumes "to_double a = Inr x" "to_double b = Inr y"
  shows "float_binop f a b = (case f x y of Inl e \<Rightarrow> Inl e | Inr r \<Rightarrow> Inr (PFloat r))"
  using assms by (simp add: float_binop_def)

text \<open>
  C4, as the claim states it, fails when one operand is a float and the other an
  integer too large for a float: both pass the validation, the INFO record is logged,
  and the operator raises OverflowError instead of returning a sum.
\<close>

theorem sumar_huge_int_and_float_raises_OverflowError:
  "sumar (PInt (10 ^ 400)) (PFloat (Fin 1)) [] =
     (Inl (OverflowError ''int too large to convert to float''),
      [LogRecord INFO ''Sumando %d + %d'' [PInt (10 ^ 400), PFloat (Fin 1)]])"
  using big_int_overflows
  by (simp add: sumar_def py_add_def float_binop_def int_to_double_def del: of_int_power)

text \<open>
  C4, amended. With two numbers each of \<open>sumar\<close>, \<open>restar\<close> and \<open>multiplicar\<close> logs
  one INFO record. With two integers (booleans count as 1 and 0) they return the exact
  integer sum, difference and product. Otherwise both operands are converted to
  doubles and the float sum, difference and product are returned (for two finite
  floats, the rounded exact result), unless an integer operand is too large to
  convert, in which case OverflowError is raised.
\<close>

theorem sumar_restar_multiplicar_outcomes:
  assumes "isinstance_int_float a" and "isinstance_int_float b"
  shows
  "snd (sumar a b lg) = lg @ [LogRecord INFO ''Sumando %d + %d'' [a, b]]
   \<and> snd (restar a b lg) = lg @ [LogRecord INFO ''Restando %d - %d'' [a, b]]
   \<and> snd (multiplicar a b lg) = lg @ [LogRecord INFO ''Multiplicando %d * %d'' [a, b]]
   \<and> (isinstance_int a \<and> isinstance_int b \<longrightarrow>
         fst (sumar a b lg) = Inr (PInt (int_of a + int_of b))
       \<and> fst (restar a b lg) = Inr (PInt (int_of a - int_of b))
       \<and> fst (multiplicar a b lg) = Inr (PInt (int_of a * int_of b)))
   \<and> (\<not> (isinstance_int a \<and> isinstance_int b) \<longrightarrow>
         (\<forall>x y. to_double a = Inr x \<and> to_double b = Inr y \<longrightarrow>
            fst (sumar a b lg) = Inr (PFloat (f_add x y))
          \<and> fst (restar a b lg) = Inr (PFloat (f_sub x y))
          \<and> fst (multiplicar a b lg) = Inr (PFloat (f_mul x y)))
       \<and> ((isinstance_int a \<and> overflow_threshold \<le> \<bar>of_int (int_of a)\<bar>)
            \<or> (isinstance_int b \<and> overflow_threshold \<le> \<bar>of_int (int_of b)\<bar>) \<longrightarrow>
            fst (sumar a b lg) = Inl (OverflowError ''int too large to convert to float'')
          \<and> fst (restar a b lg) = Inl (OverflowError ''int too large to convert to float'')
          \<and> fst (multiplicar a b lg) =
              Inl (OverflowError ''int too large to convert to float'')))
   \<and> (\<forall>x y. a = PFloat (Fin x) \<and> b = PFloat (Fin y) \<longrightarrow>
         fst (sumar a b lg) = Inr (PFloat (fl (x + y)))
       \<and> fst (restar a b lg) = Inr (PFloat (fl (x - y)))
       \<and> fst (multiplicar a b lg) = Inr (PFloat (fl (x * y))))"
proof -
  have s: "sumar a b lg = (py_add a b, lg @ [LogRecord INFO ''Sumando %d + %d'' [a, b]])"
    using assms by (simp add: sumar_def)
  have r: "restar a b lg = (py_sub a b, lg @ [LogRecord INFO ''Restando %d - %d'' [a, b]])"
    using assms by (simp add: restar_def)
  have m: "multiplicar a b lg =
             (py_mul a b, lg @ [LogRecord INFO ''Multiplicando %d * %d'' [a, b]])"
    using assms by (simp add: multiplicar_def)
  have ints: "py_add a b = Inr (PInt (int_of a + int_of b))
       \<and> py_sub a b = Inr (PInt (int_of a - int_of b))
       \<and> py_mul a b = Inr (PInt (int_of a * int_of b))"
    if "isinstance_int a \<and> isinstance_int b"
    using that by (simp add: py_add_def py_sub_def py_mul_def)
  have floats: "py_add a b = Inr (PFloat (f_add x y))
          \<and> py_sub a b = Inr (PFloat (f_sub x y))
          \<and> py_mul a b = Inr (PFloat (f_mul x y))"
    if "\<not> (isinstance_int a \<and> isinstance_int b)" "to_double a = Inr x \<and> to_double b = Inr y"
    for x y
    using that by (simp add: py_add_def py_sub_def py_mul_def float_binop_value)
  have ovf: "py_add a b = Inl (OverflowError ''int too large to convert to float'')
          \<and> py_sub a b = Inl (OverflowError ''int too large to convert to float'')
          \<and> py_mul a b = Inl (OverflowError ''int too large to convert to float'')"
    if "\<not> (isinstance_int a \<and> isinstance_int b)"
      "(isinstance_int a \<and> overflow_threshold \<le> \<bar>of_int (int_of a) :: real\<bar>)
        \<or> (isinstance_int b \<and> overflow_threshold \<le> \<bar>of_int (int_of b) :: real\<bar>)"
    using that assms float_binop_overflow[OF assms that(2)]
    by (simp add: py_add_def py_sub_def py_mul_def)
  have fins: "py_add a b = Inr (PFloat (fl (x + y)))
       \<and> py_sub a b = Inr (PFloat (fl (x - y)))
       \<and> py_mul a b = Inr (PFloat (fl (x * y)))"
    if "a = PFloat (Fin x) \<and> b = PFloat (Fin y)" for x y
    using that by (simp add: py_add_def py_sub_def py_mul_def float_binop_def f_sub_def)
  show ?thesis
    unfolding s r m fst_conv snd_conv using ints floats ovf fins by blast
qed

theorem sumar_restar_multiplicar_outcomes_witness:
  "sumar (PInt 5) (PInt 3) [] =
     (Inr (PInt 8), [LogRecord INFO ''Sumando %d + %d'' [PInt 5, PInt 3]])
   \<and> fst (restar (PInt 10) (PBool True) []) = Inr (PInt 9)
   \<and> fst (multiplicar (PFloat (Fin (1 / 2))) (PFloat (Fin 3)) []) = Inr (PFloat (fl (3 / 2)))"
proof (intro conjI)
  have "fst (sumar (PInt 5) (PInt 3) []) = Inr (PInt 8)
        \<and> snd (sumar (PInt 5) (PInt 3) []) =
            [LogRecord INFO ''Sumando %d + %d'' [PInt 5, PInt 3]]"
    using sumar_restar_multiplicar_outcomes [of "PInt 5" "PInt 3" "[]"] by simp
  then show "sumar (PInt 5) (PInt 3) [] =
     (Inr (PInt 8), [LogRecord INFO ''Sumando %d + %d'' [PInt 5, PInt 3]])"
    by (simp add: prod_eq_iff)
  show "fst (restar (PInt 10) (PBool True) []) = Inr (PInt 9)"
    using sumar_restar_multiplicar_outcomes [of "PInt 10" "PBool True" "[]"] by simp
  show "fst (multiplicar (PFloat (Fin (1 / 2))) (PFloat (Fin 3)) []) = Inr (PFloat (fl (3 / 2)))"
    using sumar_restar_multiplicar_outcomes [of "PFloat (Fin (1 / 2))" "PFloat (Fin 3)" "[]"]
    by simp
qed

section \<open>The division\<close>

text \<open>
  C1, as the claim states it, fails for a quotient of integers that is too large for
  a float: the divisor is not zero, the INFO record is logged, and \<open>/\<close> raises
  OverflowError instead of returning a float.
\<close>

theorem dividir_huge_int_raises_OverflowError:
  "dividir (PInt (10 ^ 400)) (PInt 1) [] =
     (Inl (OverflowError ''integer division result too large for a float''),
      [LogRecord INFO ''Dividiendo %d / %d'' [PInt (10 ^ 400), PInt 1]])"
  using big_int_overflows
  by (simp add: dividir_def py_truediv_def int_true_divide_def del: of_int_power)

text \<open>
  C1, amended. With two numbers and a divisor equal to zero, \<open>dividir\<close> logs exactly
  one ERROR record, raises ValueError and returns nothing. With any other divisor it
  logs one INFO record; then two integers give the nearest double of the quotient,
  or OverflowError when the quotient is too large for a float; and when one operand
  at least is a float, both are converted and the float quotient is returned (for two
  finite floats, the rounded exact quotient), unless an integer operand is too large
  to convert, in which case OverflowError is raised.
\<close>

theorem dividir_outcomes:
  assumes "isinstance_int_float a" and "isinstance_int_float b"
  shows
  "(py_eq_zero b \<longrightarrow>
      dividir a b lg =
        (Inl (ValueError ''No se puede dividir por cero''),
         lg @ [LogRecord ERROR
                 (''Intento de divisi'' @ o_acute @ ''n por cero al intentar dividir %d por %d'')
                 [a, b]]))
   \<and> (\<not> py_eq_zero b \<longrightarrow>
        snd (dividir a b lg) = lg @ [LogRecord INFO ''Dividiendo %d / %d'' [a, b]]
      \<and> (isinstance_int a \<and> isinstance_int b \<longrightarrow>
           (\<bar>of_int (int_of a) / of_int (int_of b)\<bar> < overflow_threshold \<longrightarrow>
              fst (dividir a b lg) =
                Inr (PFloat (Fin (nearest (of_int (int_of a) / of_int (int_of b))))))
         \<and> (overflow_threshold \<le> \<bar>of_int (int_of a) / of_int (int_of b)\<bar> \<longrightarrow>
              fst (dividir a b lg) =
                Inl (OverflowError ''integer division result too large for a float'')))
      \<and> (\<not> (isinstance_int a \<and> isinstance_int b) \<longrightarrow>
           (\<forall>x y. to_double a = Inr x \<and> to_double b = Inr y \<longrightarrow>
              (\<exists>q. f_div x y = Inr q \<and> fst (dividir a b lg) = Inr (PFloat q)))
         \<and> ((isinstance_int a \<and> overflow_threshold \<le> \<bar>of_int (int_of a)\<bar>)
              \<or> (isinstance_int b \<and> overflow_threshold \<le> \<bar>of_int (int_of b)\<bar>) \<longrightarrow>
              fst (dividir a b lg) =
                Inl (OverflowError ''int too large to convert to float'')))
      \<and> (\<forall>x y. a = PFloat (Fin x) \<and> b = PFloat (Fin y) \<longrightarrow>
           fst (dividir a b lg) = Inr (PFloat (fl (x / y)))))"
proof (intro conjI impI)
  assume "py_eq_zero b"
  then show "dividir a b lg =
        (Inl (ValueError ''No se puede dividir por cero''),
         lg @ [LogRecord ERROR
                 (''Intento de divisi'' @ o_acute @ ''n por cero al intentar dividir %d por %d'')
                 [a, b]])"
    using assms by (simp add: dividir_def)
next
  assume nz: "\<not> py_eq_zero b"
  then have d: "dividir a b lg =
      (py_truediv a b, lg @ [LogRecord INFO ''Dividiendo %d / %d'' [a, b]])"
    using assms by (simp add: dividir_def)
  show "snd (dividir a b lg) = lg @ [LogRecord INFO ''Dividiendo %d / %d'' [a, b]]"
    by (simp add: d)
  have b0: "int_of b \<noteq> 0" if "isinstance_int b"
    using that nz by (cases b) auto
  {
    assume i: "isinstance_int a \<and> isinstance_int b"
    {
      assume "\<bar>of_int (int_of a) / of_int (int_of b) :: real\<bar> < overflow_threshold"
      then show "fst (dividir a b lg) =
                Inr (PFloat (Fin (nearest (of_int (int_of a) / of_int (int_of b)))))"
        using i b0 by (simp add: d py_truediv_def int_true_divide_def)
    }
    {
      assume "overflow_threshold \<le> \<bar>of_int (int_of a) / of_int (int_of b) :: real\<bar>"
      then show "fst (dividir a b lg) =
                Inl (OverflowError ''integer division result too large for a float'')"
        using i b0 by (simp add: d py_truediv_def int_true_divide_def)
    }
  }
  {
    assume ni: "\<not> (isinstance_int a \<and> isinstance_int b)"
    show "\<forall>x y. to_double a = Inr x \<and> to_double b = Inr y \<longrightarrow>
              (\<exists>q. f_div x y = Inr q \<and> fst (dividir a b lg) = Inr (PFloat q))"
    proof (intro allI impI)
      fix x y assume xy: "to_double a = Inr x \<and> to_double b = Inr y"
      then have "y \<noteq> Fin 0" using to_double_nonzero[OF assms(2) nz] by blast
      then obtain q where q: "f_div x y = Inr q" using f_div_nonzero by blast
      then have "fst (dividir a b lg) = Inr (PFloat q)"
        using ni xy by (auto simp: d py_truediv_def float_binop_value)
      with q show "\<exists>q. f_div x y = Inr q \<and> fst (dividir a b lg) = Inr (PFloat q)"
        by blast
    qed
    {
      assume o: "(isinstance_int a \<and> overflow_threshold \<le> \<bar>of_int (int_of a) :: real\<bar>)
              \<or> (isinstance_int b \<and> overflow_threshold \<le> \<bar>of_int (int_of b) :: real\<bar>)"
      show "fst (dividir a b lg) = Inl (OverflowError ''int too large to convert to float'')"
        using ni float_binop_overflow[OF assms o, of f_div]
        by (auto simp: d py_truediv_def)
    }
  }
  show "\<forall>x y. a = PFloat (Fin x) \<and> b = PFloat (Fin y) \<longrightarrow>
           fst (dividir a b lg) = Inr (PFloat (fl (x / y)))"
    using nz by (auto simp: dividir_def py_truediv_def float_binop_def)
qed

theorem dividir_outcomes_witness:
  "dividir (PInt 15) (PInt 3) [] =
     (Inr (PFloat (Fin 5)), [LogRecord INFO ''Dividiendo %d / %d'' [PInt 15, PInt 3]])
   \<and> dividir (PInt 5) (PInt 0) [] =
     (Inl (ValueError ''No se puede dividir por cero''),
      [LogRecord ERROR
         (''Intento de divisi'' @ o_acute @ ''n por cero al intentar dividir %d por %d'')
         [PInt 5, PInt 0]])"
proof (intro conjI)
  have n: "nearest 5 = 5" using nearest_of_int[of 5] by simp
  have t: "(5::real) < overflow_threshold" by (simp add: overflow_threshold_def)
  have "fst (dividir (PInt 15) (PInt 3) []) = Inr (PFloat (Fin 5))
        \<and> snd (dividir (PInt 15) (PInt 3) []) =
            [LogRecord INFO ''Dividiendo %d / %d'' [PInt 15, PInt 3]]"
    using dividir_outcomes [of "PInt 15" "PInt 3" "[]"] n t by simp
  then show "dividir (PInt 15) (PInt 3) [] =
     (Inr (PFloat (Fin 5)), [LogRecord INFO ''Dividiendo %d / %d'' [PInt 15, PInt 3]])"
    by (simp add: prod_eq_iff)
  show "dividir (PInt 5) (PInt 0) [] =
     (Inl (ValueError ''No se puede dividir por cero''),
      [LogRecord ERROR
         (''Intento de divisi'' @ o_acute @ ''n por cero al intentar dividir %d por %d'')
         [PInt 5, PInt 0]])"
    using dividir_outcomes [of "PInt 5" "PInt 0" "[]"] by simp
qed

section \<open>The logarithms\<close>






section \<open>The square root\<close>

lemma square_error:
  fixes y s u :: real
  assumes "0 \<le> s" "0 \<le> u" "u \<le> 1" "\<bar>y - s\<bar> \<le> u * s"
  shows "\<bar>y * y - s * s\<bar> \<le> 3 * u * (s * s)"
proof -
  have "\<bar>y + s\<bar> \<le> \<bar>y - s\<bar> + 2 * s" using assms(1) by linarith
  also have "\<dots> \<le> u * s + 2 * s" using assms(4) by linarith
  also have "\<dots> \<le> 3 * s" using mult_right_mono[OF assms(3) assms(1)] by simp
  finally have a: "\<bar>y + s\<bar> \<le> 3 * s" .
  have "\<bar>y * y - s * s\<bar> = \<bar>y - s\<bar> * \<bar>y + s\<bar>"
    by (simp add: abs_mult[symmetric] algebra_simps)
  also have "\<dots> \<le> (u * s) * (3 * s)"
    using assms(4) a by (intro mult_mono) simp_all
  finally show ?thesis by (simp add: algebra_simps)
qed

lemma sqrt_rounding:
  fixes v :: real
  assumes "2 powi (- 1074) \<le> v" "v < 2 ^ 1025"
  shows "fl (sqrt v) = Fin (nearest (sqrt v))"
    and "0 \<le> nearest (sqrt v)"
    and "\<bar>nearest (sqrt v) * nearest (sqrt v) - v\<bar> \<le> 3 * 2 powi (- 53) * v"
proof -
  have pos: "0 < v" using assms(1) by (smt (verit) zero_less_power_int)
  define s where "s = sqrt v"
  have s0: "0 \<le> s" and ss: "s * s = v" using pos by (simp_all add: s_def)
  have "(2::real) powi n * 2 powi n = 2 powi (n + n)" for n :: int
    by (rule power_int_add[symmetric]) simp
  from this[of "- 537"] have "((2::real) powi (- 537))\<^sup>2 = 2 powi (- 1074)"
    unfolding power2_eq_square by simp
  then have "((2::real) powi (- 537))\<^sup>2 \<le> v" using assms(1) by simp
  then have lo: "2 powi (- 537) \<le> s" unfolding s_def by (rule real_le_rsqrt)
  have "(2::real) powi (- 1022) \<le> 2 powi (- 537)"
    by (rule power_int_increasing) simp_all
  then have "2 powi (- 1022) \<le> \<bar>s\<bar>" using lo by linarith
  then have "\<bar>nearest s - s\<bar> \<le> 2 powi (- 53) * \<bar>s\<bar>" by (rule nearest_rel_error)
  then have e: "\<bar>nearest s - s\<bar> \<le> 2 powi (- 53) * s" using s0 by simp
  have u: "(0::real) \<le> 2 powi (- 53)" "(2::real) powi (- 53) \<le> 1"
    by (simp_all add: power_int_minus field_simps)
  from square_error[OF s0 u e]
  show "\<bar>nearest (sqrt v) * nearest (sqrt v) - v\<bar> \<le> 3 * 2 powi (- 53) * v"
    by (simp add: ss s_def[symmetric])
  show "0 \<le> nearest (sqrt v)" using s0 unfolding s_def by (rule nearest_nonneg)
  have "v < (2 ^ 513)\<^sup>2" using assms(2) by simp
  then have "s < 2 ^ 513" unfolding s_def by (intro real_less_lsqrt) simp_all
  moreover have "(2::real) ^ 513 < overflow_threshold" by (simp add: overflow_threshold_def)
  ultimately have "\<bar>s\<bar> < overflow_threshold" using s0 by linarith
  then show "fl (sqrt v) = Fin (nearest (sqrt v))" unfolding s_def by (rule fl_finite)
qed


lemma sqrt_of_int_rounding:
  fixes i :: int
  assumes "0 \<le> i" "of_int i < overflow_threshold"
  shows "0 \<le> nearest (of_int i)"
    and "fl (sqrt (nearest (of_int i))) = Fin (nearest (sqrt (nearest (of_int i))))"
    and "0 \<le> nearest (sqrt (nearest (of_int i)))"
    and "\<bar>nearest (sqrt (nearest (of_int i))) * nearest (sqrt (nearest (of_int i))) - of_int i\<bar>
           \<le> 2 powi (- 50) * of_int i"
proof -
  let ?x = "of_int i :: real"
  define d where "d = nearest ?x"
  define y where "y = nearest (sqrt d)"
  have d0: "0 \<le> d" unfolding d_def using assms(1) by (intro nearest_nonneg) simp
  have y0: "0 \<le> y" unfolding y_def using d0 by (intro nearest_nonneg) simp
  have "fl (sqrt d) = Fin y \<and> \<bar>y * y - ?x\<bar> \<le> 2 powi (- 50) * ?x"
  proof (cases "i = 0")
    case True
    then have "d = 0" by (simp add: d_def nearest_def)
    then have "y = 0" by (simp add: y_def nearest_def)
    have "fl 0 = Fin (nearest 0)" using overflow_threshold_gt_1 by (intro fl_finite) simp
    then show ?thesis using True \<open>d = 0\<close> \<open>y = 0\<close> by (simp add: nearest_def)
  next
    case False
    then have x1: "1 \<le> ?x" using assms(1) by simp
    have u: "(2::real) powi (- 53) \<le> 1" "(0::real) \<le> 2 powi (- 53)"
      by (simp_all add: power_int_minus field_simps)
    have "(2::real) powi (- 1022) \<le> 1" by (simp add: power_int_minus field_simps)
    then have "2 powi (- 1022) \<le> \<bar>?x\<bar>" using x1 by linarith
    then have "\<bar>nearest ?x - ?x\<bar> \<le> 2 powi (- 53) * \<bar>?x\<bar>" by (rule nearest_rel_error)
    then have e: "\<bar>d - ?x\<bar> \<le> 2 powi (- 53) * ?x" using x1 by (simp add: d_def)
    have ux: "2 powi (- 53) * ?x \<le> 1 * ?x" using u(1) x1 by (intro mult_right_mono) simp_all
    have h: "(2::real) powi (- 53) * ?x \<le> ?x / 2"
    proof -
      have "(2::real) powi (- 53) \<le> 1 / 2" by (simp add: power_int_minus field_simps)
      then have "2 powi (- 53) * ?x \<le> (1 / 2) * ?x" using x1 by (intro mult_right_mono) simp_all
      then show ?thesis by simp
    qed
    have dlo: "1 / 2 \<le> d" using e h x1 by linarith
    have "(2::real) powi (- 1074) \<le> 1 / 2" by (simp add: power_int_minus field_simps)
    then have d1: "2 powi (- 1074) \<le> d" using dlo by linarith
    have dhi: "d \<le> 2 * ?x" using e ux by linarith
    have "2 * overflow_threshold < 2 ^ 1025" by (simp add: overflow_threshold_def)
    then have d2: "d < 2 ^ 1025" using dhi assms(2) by linarith
    from sqrt_rounding[OF d1 d2]
    have f: "fl (sqrt d) = Fin y" and q: "\<bar>y * y - d\<bar> \<le> 3 * 2 powi (- 53) * d"
      by (simp_all add: y_def)
    have "3 * 2 powi (- 53) * d \<le> 3 * 2 powi (- 53) * (2 * ?x)"
      using dhi u(2) by (intro mult_left_mono) simp_all
    then have "\<bar>y * y - d\<bar> \<le> 6 * (2 powi (- 53) * ?x)" using q by linarith
    then have "\<bar>y * y - ?x\<bar> \<le> 7 * (2 powi (- 53) * ?x)" using e by linarith
    moreover have "7 * (2 powi (- 53) * ?x) \<le> 8 * (2 powi (- 53) * ?x)"
      using u(2) x1 by simp
    moreover have "8 * (2 powi (- 53) * ?x) = 2 powi (- 50) * ?x"
      by (simp add: power_int_minus field_simps)
    ultimately have "\<bar>y * y - ?x\<bar> \<le> 2 powi (- 50) * ?x" by linarith
    with f show ?thesis by blast
  qed
  then show "fl (sqrt (nearest (of_int i))) = Fin (nearest (sqrt (nearest (of_int i))))"
    and "\<bar>nearest (sqrt (nearest (of_int i))) * nearest (sqrt (nearest (of_int i))) - of_int i\<bar>
           \<le> 2 powi (- 50) * of_int i"
    by (simp_all add: d_def y_def)
  show "0 \<le> nearest (of_int i)" using d0 by (simp add: d_def)
  show "0 \<le> nearest (sqrt (nearest (of_int i)))" using y0 by (simp add: d_def y_def)
qed

lemma sqrt_of_float_rounding:
  fixes v :: real
  assumes "double_range v" "0 \<le> v"
  shows "fl (sqrt v) = Fin (nearest (sqrt v))"
    and "0 \<le> nearest (sqrt v)"
    and "\<bar>nearest (sqrt v) * nearest (sqrt v) - v\<bar> \<le> 2 powi (- 51) * v"
proof -
  have "fl (sqrt v) = Fin (nearest (sqrt v))
        \<and> \<bar>nearest (sqrt v) * nearest (sqrt v) - v\<bar> \<le> 2 powi (- 51) * v"
  proof (cases "v = 0")
    case True
    have "fl 0 = Fin (nearest 0)" using overflow_threshold_gt_1 by (intro fl_finite) simp
    then show ?thesis using True by (simp add: nearest_def)
  next
    case False
    then have r: "2 powi (- 1074) \<le> v" "v < 2 ^ 1025"
      using assms by (auto simp: double_range_def)
    from sqrt_rounding[OF r]
    have f: "fl (sqrt v) = Fin (nearest (sqrt v))"
      and q: "\<bar>nearest (sqrt v) * nearest (sqrt v) - v\<bar> \<le> 3 * 2 powi (- 53) * v"
      by blast+
    have "(3::real) * 2 powi (- 53) \<le> 2 powi (- 51)" by (simp add: power_int_minus field_simps)
    then have "3 * 2 powi (- 53) * v \<le> 2 powi (- 51) * v"
      using assms(2) by (intro mult_right_mono) simp_all
    with f q show ?thesis by linarith
  qed
  then show "fl (sqrt v) = Fin (nearest (sqrt v))"
    and "\<bar>nearest (sqrt v) * nearest (sqrt v) - v\<bar> \<le> 2 powi (- 51) * v"
    by blast+
  show "0 \<le> nearest (sqrt v)" using assms(2) by (intro nearest_nonneg) simp
qed

text \<open>
  C5, as the claim states it, fails at a non-negative integer that is too large for a
  float: it passes the validation and the test \<open>numero < 0\<close>, the INFO record is
  logged, and \<open>math.sqrt\<close> raises OverflowError instead of returning a root.
\<close>

theorem raiz_cuadrada_huge_int_raises_OverflowError:
  "raiz_cuadrada (PInt (10 ^ 400)) [] =
     (Inl (OverflowError ''int too large to convert to float''),
      [LogRecord INFO (''Calculando ra'' @ i_acute @ ''z cuadrada de %d'') [PInt (10 ^ 400)]])"
  using big_int_overflows
  by (simp add: raiz_cuadrada_def math_sqrt_def math_1_def int_to_double_def
      del: of_int_power)

text \<open>
  C5, amended. For a negative number (an integer, a float, minus infinity),
  \<open>raiz_cuadrada\<close> logs one ERROR record and raises ValueError. For a finite float
  \<open>v >= 0\<close> it logs one INFO record and returns the nearest double \<open>y\<close> of the root,
  with \<open>y >= 0\<close> and \<open>|y * y - v| <= 2^-51 * v\<close>. For plus infinity it returns plus
  infinity. For an integer (or boolean) \<open>i >= 0\<close> below \<open>2^1024 - 2^970\<close> it returns
  the root \<open>y\<close> of the double of \<open>i\<close>, with \<open>y >= 0\<close> and
  \<open>|y * y - i| <= 2^-50 * i\<close>. For an integer from \<open>2^1024 - 2^970\<close> on it logs
  the INFO record and raises OverflowError. A finite float argument is taken within
  the range of the doubles (\<open>float_in_range\<close>).
\<close>

theorem raiz_cuadrada_outcomes:
  assumes "isinstance_int_float numero" and "float_in_range numero"
  shows
  "(py_lt_zero numero \<longrightarrow>
      raiz_cuadrada numero lg =
        (Inl (ValueError (''No se puede calcular la ra'' @ i_acute @ ''z cuadrada de un n''
                            @ u_acute @ ''mero negativo'')),
         lg @ [LogRecord ERROR
                 (''Intento de calcular ra'' @ i_acute @ ''z cuadrada de n'' @ u_acute
                    @ ''mero negativo: %d'')
                 [numero]]))
   \<and> (\<forall>v. numero = PFloat (Fin v) \<and> 0 \<le> v \<longrightarrow>
        (\<exists>y. raiz_cuadrada numero lg =
               (Inr (PFloat (Fin y)),
                lg @ [LogRecord INFO (''Calculando ra'' @ i_acute @ ''z cuadrada de %d'')
                        [numero]])
            \<and> y = nearest (sqrt v) \<and> 0 \<le> y \<and> \<bar>y * y - v\<bar> \<le> 2 powi (- 51) * v))
   \<and> (numero = PFloat PInf \<longrightarrow>
        raiz_cuadrada numero lg =
          (Inr (PFloat PInf),
           lg @ [LogRecord INFO (''Calculando ra'' @ i_acute @ ''z cuadrada de %d'')
                   [numero]]))
   \<and> (isinstance_int numero \<and> 0 \<le> int_of numero
        \<and> of_int (int_of numero) < overflow_threshold \<longrightarrow>
        (\<exists>y. raiz_cuadrada numero lg =
               (Inr (PFloat (Fin y)),
                lg @ [LogRecord INFO (''Calculando ra'' @ i_acute @ ''z cuadrada de %d'')
                        [numero]])
            \<and> y = nearest (sqrt (nearest (of_int (int_of numero)))) \<and> 0 \<le> y
            \<and> \<bar>y * y - of_int (int_of numero)\<bar> \<le> 2 powi (- 50) * of_int (int_of numero)))
   \<and> (isinstance_int numero \<and> overflow_threshold \<le> of_int (int_of numero) \<longrightarrow>
        raiz_cuadrada numero lg =
          (Inl (OverflowError ''int too large to convert to float''),
           lg @ [LogRecord INFO (''Calculando ra'' @ i_acute @ ''z cuadrada de %d'')
                   [numero]]))"
proof (intro conjI impI allI)
  assume "py_lt_zero numero"
  then show "raiz_cuadrada numero lg =
        (Inl (ValueError (''No se puede calcular la ra'' @ i_acute @ ''z cuadrada de un n''
                            @ u_acute @ ''mero negativo'')),
         lg @ [LogRecord ERROR
                 (''Intento de calcular ra'' @ i_acute @ ''z cuadrada de n'' @ u_acute
                    @ ''mero negativo: %d'')
                 [numero]])"
    using assms(1) by (simp add: raiz_cuadrada_def)
next
  fix v assume v: "numero = PFloat (Fin v) \<and> 0 \<le> v"
  then have "double_range v" using assms(2) by simp
  from sqrt_of_float_rounding[OF this] v
  have f: "fl (sqrt v) = Fin (nearest (sqrt v))"
    and y0: "0 \<le> nearest (sqrt v)"
    and q: "\<bar>nearest (sqrt v) * nearest (sqrt v) - v\<bar> \<le> 2 powi (- 51) * v"
    by blast+
  have "raiz_cuadrada numero lg =
               (Inr (PFloat (Fin (nearest (sqrt v)))),
                lg @ [LogRecord INFO (''Calculando ra'' @ i_acute @ ''z cuadrada de %d'')
                        [numero]])"
    using v f by (simp add: raiz_cuadrada_def math_sqrt_def math_1_def)
  with y0 q show "\<exists>y. raiz_cuadrada numero lg =
               (Inr (PFloat (Fin y)),
                lg @ [LogRecord INFO (''Calculando ra'' @ i_acute @ ''z cuadrada de %d'')
                        [numero]])
            \<and> y = nearest (sqrt v) \<and> 0 \<le> y \<and> \<bar>y * y - v\<bar> \<le> 2 powi (- 51) * v"
    by blast
next
  assume "numero = PFloat PInf"
  then show "raiz_cuadrada numero lg =
          (Inr (PFloat PInf),
           lg @ [LogRecord INFO (''Calculando ra'' @ i_acute @ ''z cuadrada de %d'')
                   [numero]])"
    by (simp add: raiz_cuadrada_def math_sqrt_def math_1_def)
next
  assume i: "isinstance_int numero \<and> 0 \<le> int_of numero
        \<and> of_int (int_of numero) < overflow_threshold"
  let ?d = "nearest (of_int (int_of numero))"
  from i have nlt: "\<not> py_lt_zero numero" by (cases numero) auto
  from i have c: "to_double numero = Inr (Fin ?d)"
    by (simp add: to_double_int int_to_double_def)
  from sqrt_of_int_rounding[of "int_of numero"] i
  have d0: "0 \<le> ?d"
    and f: "fl (sqrt ?d) = Fin (nearest (sqrt ?d))"
    and y0: "0 \<le> nearest (sqrt ?d)"
    and q: "\<bar>nearest (sqrt ?d) * nearest (sqrt ?d) - of_int (int_of numero)\<bar>
             \<le> 2 powi (- 50) * of_int (int_of numero)"
    by blast+
  have "raiz_cuadrada numero lg =
               (Inr (PFloat (Fin (nearest (sqrt ?d)))),
                lg @ [LogRecord INFO (''Calculando ra'' @ i_acute @ ''z cuadrada de %d'')
                        [numero]])"
    using assms(1) nlt c d0 f by (simp add: raiz_cuadrada_def math_sqrt_def math_1_def)
  with y0 q show "\<exists>y. raiz_cuadrada numero lg =
               (Inr (PFloat (Fin y)),
                lg @ [LogRecord INFO (''Calculando ra'' @ i_acute @ ''z cuadrada de %d'')
                        [numero]])
            \<and> y = nearest (sqrt (nearest (of_int (int_of numero)))) \<and> 0 \<le> y
            \<and> \<bar>y * y - of_int (int_of numero)\<bar> \<le> 2 powi (- 50) * of_int (int_of numero)"
    by blast
next
  assume i: "isinstance_int numero \<and> overflow_threshold \<le> of_int (int_of numero)"
  then have p: "(0::real) < of_int (int_of numero)" using overflow_threshold_gt_1 by linarith
  then have nlt: "\<not> py_lt_zero numero" by (cases numero) auto
  from i p have "to_double numero = Inl (OverflowError ''int too large to convert to float'')"
    by (simp add: to_double_int int_to_double_def)
  then show "raiz_cuadrada numero lg =
          (Inl (OverflowError ''int too large to convert to float''),
           lg @ [LogRecord INFO (''Calculando ra'' @ i_acute @ ''z cuadrada de %d'')
                   [numero]])"
    using assms(1) nlt by (simp add: raiz_cuadrada_def math_sqrt_def math_1_def)
qed

theorem raiz_cuadrada_outcomes_witness:
  "raiz_cuadrada (PInt 16) [] =
     (Inr (PFloat (Fin 4)),
      [LogRecord INFO (''Calculando ra'' @ i_acute @ ''z cuadrada de %d'') [PInt 16]])
   \<and> raiz_cuadrada (PInt (- 4)) [] =
     (Inl (ValueError (''No se puede calcular la ra'' @ i_acute @ ''z cuadrada de un n''
                         @ u_acute @ ''mero negativo'')),
      [LogRecord ERROR
         (''Intento de calcular ra'' @ i_acute @ ''z cuadrada de n'' @ u_acute
            @ ''mero negativo: %d'')
         [PInt (- 4)]])"
proof (intro conjI)
  have n: "nearest 16 = 16" "nearest 4 = 4"
    using nearest_of_int[of 16] nearest_of_int[of 4] by simp_all
  have s: "sqrt 16 = 4" using real_sqrt_abs[of 4] by simp
  have t: "(16::real) < overflow_threshold" by (simp add: overflow_threshold_def)
  show "raiz_cuadrada (PInt 16) [] =
     (Inr (PFloat (Fin 4)),
      [LogRecord INFO (''Calculando ra'' @ i_acute @ ''z cuadrada de %d'') [PInt 16]])"
    using raiz_cuadrada_outcomes [of "PInt 16" "[]"] n s t by auto
  show "raiz_cuadrada (PInt (- 4)) [] =
     (Inl (ValueError (''No se puede calcular la ra'' @ i_acute @ ''z cuadrada de un n''
                         @ u_acute @ ''mero negativo'')),
      [LogRecord ERROR
         (''Intento de calcular ra'' @ i_acute @ ''z cuadrada de n'' @ u_acute
            @ ''mero negativo: %d'')
         [PInt (- 4)]])"
    using raiz_cuadrada_outcomes [of "PInt (- 4)" "[]"] by simp
qed

end
